theory Spec2Isabelle
  imports Complex_Main
begin

section \<open>The mock invoice endpoint (src/pages/api/qpay.ts)\<close>

subsection \<open>JavaScript values of the request\<close>

text \<open>
  The request body is whatever the JSON body parser produced, so its fields are untyped
  values. Numbers are rationals here: the handler only tests a number for truthiness
  (zero or not), never computes with it.
\<close>

datatype jsval =
    JUndefined
  | JNull
  | JBool bool
  | JNum rat
  | JStr string
  | JArr "jsval list"
  | JObj "(string \<times> jsval) list"

text \<open>The operator \<open>!v\<close> is \<open>\<not> truthy v\<close>.\<close>

fun truthy :: "jsval \<Rightarrow> bool" where
  "truthy JUndefined = False"
| "truthy JNull = False"
| "truthy (JBool b) = b"
| "truthy (JNum x) = (x \<noteq> 0)"
| "truthy (JStr s) = (s \<noteq> [])"
| "truthy (JArr xs) = True"
| "truthy (JObj kvs) = True"

text \<open>
  Destructuring \<open>const { k } = v\<close>: a TypeError (\<open>None\<close>) when \<open>v\<close> is null or undefined,
  the field of an object (the last binding of a repeated key wins, as in JSON.parse), and
  undefined for every other value (no primitive or array carries the three field names
  the handler reads).
\<close>

fun get_prop :: "jsval \<Rightarrow> string \<Rightarrow> jsval option" where
  "get_prop JUndefined k = None"
| "get_prop JNull k = None"
| "get_prop (JObj kvs) k =
     Some (case map_of (rev kvs) k of None \<Rightarrow> JUndefined | Some v \<Rightarrow> v)"
| "get_prop v k = Some JUndefined"

text \<open>\<open>req.query.invoice_id\<close> has type \<open>string | string[] | undefined\<close>.\<close>

datatype qparam = QMissing | QOne string | QMany "string list"

record request =
  req_method :: string
  body :: jsval
  query_invoice_id :: qparam

subsection \<open>Rendering the clock reading and the QR address\<close>

definition digit_char :: "nat \<Rightarrow> char" where
  "digit_char d = ''0123456789'' ! d"

text \<open>The decimal numeral that a template literal prints for a non-negative integer.\<close>

fun digits :: "nat \<Rightarrow> string" where
  "digits n = (if n < 10 then [digit_char n] else digits (n div 10) @ [digit_char (n mod 10)])"

declare digits.simps [simp del]

definition unreserved :: "char \<Rightarrow> bool" where
  "unreserved c =
     (let n = (of_char c :: nat) in
        (65 \<le> n \<and> n \<le> 90) \<or> (97 \<le> n \<and> n \<le> 122) \<or> (48 \<le> n \<and> n \<le> 57)
        \<or> c \<in> set ''-_.!~*'' \<or> n = 39 \<or> n = 40 \<or> n = 41)"

definition hex_char :: "nat \<Rightarrow> char" where
  "hex_char d = ''0123456789ABCDEF'' ! d"

text \<open>
  \<open>encodeURIComponent\<close> on ASCII text: letters, digits and \<open>- _ . ! ~ * ' ( )\<close> stay, any
  other character becomes \<open>%XX\<close>.
\<close>

definition encodeURIComponent :: "string \<Rightarrow> string" where
  "encodeURIComponent s =
     concat (map (\<lambda>c. if unreserved c then [c]
                      else [CHR ''%'', hex_char (of_char c div 16), hex_char (of_char c mod 16)]) s)"

subsection \<open>The in-memory invoice table and its timers\<close>

datatype inv_status = Pending | Paid

record invoice =
  status :: inv_status
  createdAt :: nat

text \<open>
  \<open>invoices\<close> is a plain object literal \<open>{}\<close>, so reading \<open>invoices[k]\<close> finds the own
  property when there is one and otherwise what \<open>Object.prototype\<close> provides under
  that name.
\<close>

definition object_prototype_keys :: "string list" where
  "object_prototype_keys =
     [''constructor'', ''__proto__'', ''hasOwnProperty'', ''isPrototypeOf'',
      ''propertyIsEnumerable'', ''toLocaleString'', ''toString'', ''valueOf'',
      ''__defineGetter__'', ''__defineSetter__'', ''__lookupGetter__'',
      ''__lookupSetter__'']"

datatype looked_up = Own invoice | Inherited | Absent

definition lookup_invoice :: "(string \<rightharpoonup> invoice) \<Rightarrow> string \<Rightarrow> looked_up" where
  "lookup_invoice invs k =
     (case invs k of
        Some r \<Rightarrow> Own r
      | None \<Rightarrow> if k \<in> set object_prototype_keys then Inherited else Absent)"

text \<open>
  The server: the table, the timers that \<open>setTimeout\<close> has armed (due time and the
  invoice id captured by the callback), and the clock in milliseconds, which \<open>Date.now()\<close>
  reads. One clock serves both, and it only moves forward.
\<close>

record server =
  invoices :: "string \<rightharpoonup> invoice"
  timers :: "(nat \<times> string) list"
  clock :: nat

datatype payload =
    ErrorBody string
  | InvoiceBody string string
  | StatusBody "inv_status option"

datatype outcome = Response nat payload | TypeError

definition pay_delay :: nat where
  "pay_delay = 10000"

definition qr_prefix :: string where
  "qr_prefix = ''https://api.qrserver.com/v1/create-qr-code/?size=200x200&data=''"

definition handler :: "server \<Rightarrow> request \<Rightarrow> outcome \<times> server" where
  "handler st req =
     (if req_method req = ''POST'' then
        (case (get_prop (body req) ''amount'', get_prop (body req) ''contractId'',
               get_prop (body req) ''milestoneId'') of
           (Some amount, Some contractId, Some milestoneId) \<Rightarrow>
             if \<not> truthy amount \<or> \<not> truthy contractId \<or> \<not> truthy milestoneId then
               (Response 400 (ErrorBody ''amount, contractId and milestoneId are required''), st)
             else
               (let invoiceId = ''MOCK-'' @ digits (clock st) in
                  (Response 200
                     (InvoiceBody invoiceId (qr_prefix @ encodeURIComponent invoiceId)),
                   st\<lparr>invoices := (invoices st)
                                      (invoiceId \<mapsto> \<lparr>status = Pending, createdAt = clock st\<rparr>),
                      timers := timers st @ [(clock st + pay_delay, invoiceId)]\<rparr>))
         | _ \<Rightarrow> (TypeError, st))
      else if req_method req = ''GET'' then
        (case query_invoice_id req of
           QMissing \<Rightarrow> (Response 400 (ErrorBody ''invoice_id query param is required''), st)
         | QMany ids \<Rightarrow> (Response 400 (ErrorBody ''invoice_id query param is required''), st)
         | QOne invoice_id \<Rightarrow>
             if invoice_id = [] then
               (Response 400 (ErrorBody ''invoice_id query param is required''), st)
             else
               (case lookup_invoice (invoices st) invoice_id of
                  Absent \<Rightarrow> (Response 404 (ErrorBody ''invoice not found''), st)
                | Own record \<Rightarrow> (Response 200 (StatusBody (Some (status record))), st)
                | Inherited \<Rightarrow> (Response 200 (StatusBody None), st)))
      else (Response 405 (ErrorBody ''Method not allowed''), st))"

text \<open>The timer callback: \<open>if (invoices[invoiceId]) invoices[invoiceId].status = 'paid'\<close>.\<close>

definition mark_paid :: "(string \<rightharpoonup> invoice) \<Rightarrow> string \<Rightarrow> (string \<rightharpoonup> invoice)" where
  "mark_paid invs k = (case invs k of None \<Rightarrow> invs | Some r \<Rightarrow> invs(k \<mapsto> r\<lparr>status := Paid\<rparr>))"

text \<open>
  Time passing: the clock moves on by \<open>d\<close> milliseconds and every timer that has come due
  runs its callback, in the order the timers were armed.
\<close>

definition advance :: "nat \<Rightarrow> server \<Rightarrow> server" where
  "advance d st =
     (let t = clock st + d in
        st\<lparr>invoices := foldl mark_paid (invoices st)
                           (map snd (filter (\<lambda>(due, k). due \<le> t) (timers st))),
           timers := filter (\<lambda>(due, k). \<not> due \<le> t) (timers st),
           clock := t\<rparr>)"

text \<open>
  What the server goes through: requests, each handled to completion, and time passing
  between them. \<open>run\<close> keeps the state and drops the responses.
\<close>

datatype event = Request request | Elapse nat

fun run :: "server \<Rightarrow> event list \<Rightarrow> server" where
  "run st [] = st"
| "run st (Request req # evs) = run (snd (handler st req)) evs"
| "run st (Elapse d # evs) = run (advance d st) evs"

fun elapsed :: "event list \<Rightarrow> nat" where
  "elapsed [] = 0"
| "elapsed (Request req # evs) = elapsed evs"
| "elapsed (Elapse d # evs) = d + elapsed evs"

text \<open>
  The invariant behind the delayed payment of the invoice created at clock reading \<open>t0\<close>:
  its record exists and is paid already, or its due time is still ahead and a timer for it
  is armed that fires no later than that.
\<close>

definition settling :: "nat \<Rightarrow> server \<Rightarrow> bool" where
  "settling t0 st =
     (case invoices st (''MOCK-'' @ digits t0) of
        None \<Rightarrow> False
      | Some r \<Rightarrow>
          status r = Paid \<or>
          (clock st < t0 + pay_delay \<and>
           list_ex (\<lambda>(due, k). due \<le> t0 + pay_delay \<and> k = ''MOCK-'' @ digits t0) (timers st)))"

section \<open>The record store\<close>

text \<open>
  Rows of the hosted tables the two workflows touch. Status columns are text, as the pages
  read and write them. A write through the client library either fails with the store's
  error message and changes nothing, or succeeds on every row its filter selects.
\<close>

record project =
  pj_id :: string
  pj_title :: string
  pj_status :: string
  pj_client_id :: string
  pj_budget :: "rat option"

record proposal =
  pr_id :: string
  pr_freelancer_id :: string
  pr_proposed_budget :: "rat option"
  pr_cover_letter :: "string option"
  pr_status :: string
  pr_created_at :: nat

record proposal_row = proposal +
  pr_project_id :: string

record contract =
  ct_id :: string
  ct_project_id :: string
  ct_client_id :: string
  ct_freelancer_id :: string
  ct_start_date :: string
  ct_total_amount :: "rat option"
  ct_status :: string

record milestone =
  ms_id :: string
  ms_contract_id :: string
  ms_title :: string
  ms_description :: string
  ms_amount :: rat
  ms_status :: string
  ms_created_at :: nat
  ms_updated_at :: string

record profile =
  pf_id :: string
  pf_role :: string

record store =
  profiles :: "profile list"
  projects :: "project list"
  proposals :: "proposal_row list"
  contracts :: "contract list"
  milestones :: "milestone list"

text \<open>\<open>.single()\<close>: the one selected row; an error (\<open>None\<close>) when there is none or several.\<close>

fun single :: "'r list \<Rightarrow> 'r option" where
  "single [r] = Some r"
| "single rows = None"

text \<open>\<open>.update(change)\<close> under a filter: every selected row is changed, the others stay.\<close>

definition update_where :: "('r \<Rightarrow> bool) \<Rightarrow> ('r \<Rightarrow> 'r) \<Rightarrow> 'r list \<Rightarrow> 'r list" where
  "update_where sel change rows = map (\<lambda>r. if sel r then change r else r) rows"

section \<open>Proposal review and hire (src/unnamed/part_002, pages/manage-jobs/[id].tsx)\<close>

text \<open>The four writes of a hire, in the order \<open>handleHire\<close> issues them.\<close>

datatype step = CreateContract | SetProjectInProgress | AcceptProposal | RejectSiblings

text \<open>
  What a run of \<open>handleHire\<close> meets outside the page: for each write, whether the store
  fails it and with which message; the date of the day; the id the store gives the new
  contract row.
\<close>

record hire_env =
  fails :: "step \<Rightarrow> string option"
  today :: string
  new_contract_id :: string

text \<open>
  The page shows one message. Its two fixed texts are not ASCII, so they are constructors
  here; a store error is shown with the store's own message.
\<close>

datatype hire_message = JobNotFound | StoreError string | ContractCreated

record review_page =
  rv_project :: "project option"
  rv_proposals :: "proposal list"
  rv_role :: "string option"
  rv_loading :: bool
  rv_message :: "hire_message option"
  rv_actionLoading :: "string option"
  rv_redirect :: "string option"

text \<open>The page before its first load.\<close>

definition initial_review :: review_page where
  "initial_review =
     \<lparr>rv_project = None, rv_proposals = [], rv_role = None, rv_loading = True,
      rv_message = None, rv_actionLoading = None, rv_redirect = None\<rparr>"

text \<open>Which reads of the page's load fail (only the fact of an error is looked at).\<close>

record load_env =
  user_fails :: bool
  profile_fails :: bool
  project_fails :: bool
  proposals_fails :: bool

text \<open>The columns the page selects of a proposal row.\<close>

definition selected :: "proposal_row \<Rightarrow> proposal" where
  "selected r =
     \<lparr>pr_id = pr_id r, pr_freelancer_id = pr_freelancer_id r,
      pr_proposed_budget = pr_proposed_budget r, pr_cover_letter = pr_cover_letter r,
      pr_status = pr_status r, pr_created_at = pr_created_at r\<rparr>"

text \<open>
  \<open>fetchData\<close> for the signed-in user (if any) and the job id of the route: the role, the
  project, and, only for the client who owns the project, its proposals, newest first
  (the order among equal timestamps is the store's).
\<close>

definition fetchData ::
  "load_env \<Rightarrow> store \<Rightarrow> string option \<Rightarrow> string \<Rightarrow> review_page \<Rightarrow> review_page" where
  "fetchData env st user job_id pg =
     (if job_id = [] then pg
      else case (if user_fails env then None else user) of
        None \<Rightarrow> pg\<lparr>rv_redirect := Some ''/signup''\<rparr>
      | Some uid \<Rightarrow>
          (case (if profile_fails env then None
                 else single (filter (\<lambda>p. pf_id p = uid) (profiles st))) of
             None \<Rightarrow> pg\<lparr>rv_role := None, rv_loading := False\<rparr>
           | Some profile \<Rightarrow>
               (let pg1 = pg\<lparr>rv_role := Some (pf_role profile)\<rparr> in
                case (if project_fails env then None
                      else single (filter (\<lambda>r. pj_id r = job_id) (projects st))) of
                  None \<Rightarrow> pg1\<lparr>rv_project := None, rv_loading := False\<rparr>
                | Some proj \<Rightarrow>
                    (let pg2 = pg1\<lparr>rv_project := Some proj\<rparr>;
                         pg3 = (if pf_role profile = ''client'' \<and> pj_client_id proj = uid
                                   \<and> \<not> proposals_fails env
                                then pg2\<lparr>rv_proposals :=
                                       map selected
                                         (rev (sort_key pr_created_at
                                            (filter (\<lambda>r. pr_project_id r = job_id) (proposals st))))\<rparr>
                                else pg2)
                     in pg3\<lparr>rv_loading := False\<rparr>))))"

definition write_step ::
  "hire_env \<Rightarrow> step \<Rightarrow> (store \<Rightarrow> store) \<Rightarrow> store \<Rightarrow> string option \<times> store" where
  "write_step env s change st =
     (case fails env s of Some e \<Rightarrow> (Some e, st) | None \<Rightarrow> (None, change st))"

definition new_contract :: "hire_env \<Rightarrow> project \<Rightarrow> proposal \<Rightarrow> contract" where
  "new_contract env pj proposal =
     \<lparr>ct_id = new_contract_id env,
      ct_project_id = pj_id pj,
      ct_client_id = pj_client_id pj,
      ct_freelancer_id = pr_freelancer_id proposal,
      ct_start_date = today env,
      ct_total_amount =
        (case pr_proposed_budget proposal of Some b \<Rightarrow> Some b | None \<Rightarrow> pj_budget pj),
      ct_status = ''active''\<rparr>"

text \<open>The four store calls of \<open>handleHire\<close>, each with the filter the source gives it.\<close>

definition insert_contract :: "hire_env \<Rightarrow> contract \<Rightarrow> store \<Rightarrow> string option \<times> store" where
  "insert_contract env c =
     write_step env CreateContract (\<lambda>s. s\<lparr>contracts := contracts s @ [c]\<rparr>)"

definition set_project_in_progress ::
  "hire_env \<Rightarrow> string \<Rightarrow> store \<Rightarrow> string option \<times> store" where
  "set_project_in_progress env project_id =
     write_step env SetProjectInProgress
       (\<lambda>s. s\<lparr>projects := update_where (\<lambda>r. pj_id r = project_id)
                               (\<lambda>r. r\<lparr>pj_status := ''in_progress''\<rparr>) (projects s)\<rparr>)"

definition accept_proposal :: "hire_env \<Rightarrow> string \<Rightarrow> store \<Rightarrow> string option \<times> store" where
  "accept_proposal env proposal_id =
     write_step env AcceptProposal
       (\<lambda>s. s\<lparr>proposals := update_where (\<lambda>r. pr_id r = proposal_id)
                                (\<lambda>r. r\<lparr>pr_status := ''accepted''\<rparr>) (proposals s)\<rparr>)"

definition reject_siblings ::
  "hire_env \<Rightarrow> string \<Rightarrow> string \<Rightarrow> store \<Rightarrow> string option \<times> store" where
  "reject_siblings env proposal_id project_id =
     write_step env RejectSiblings
       (\<lambda>s. s\<lparr>proposals :=
                 update_where (\<lambda>r. pr_id r \<noteq> proposal_id \<and> pr_project_id r = project_id)
                   (\<lambda>r. r\<lparr>pr_status := ''rejected''\<rparr>) (proposals s)\<rparr>)"

text \<open>
  \<open>handleHire\<close>: the first two calls are checked and end the run with the store's message;
  the results of the two proposal updates are awaited and dropped.
\<close>

definition handleHire ::
  "hire_env \<Rightarrow> store \<Rightarrow> review_page \<Rightarrow> proposal \<Rightarrow> review_page \<times> store" where
  "handleHire env st pg proposal =
     (let pg0 = pg\<lparr>rv_message := None, rv_actionLoading := Some (pr_id proposal)\<rparr> in
      case rv_project pg0 of
        None \<Rightarrow> (pg0\<lparr>rv_message := Some JobNotFound, rv_actionLoading := None\<rparr>, st)
      | Some pj \<Rightarrow>
          (case insert_contract env (new_contract env pj proposal) st of
             (Some insertError, st1) \<Rightarrow>
               (pg0\<lparr>rv_message := Some (StoreError insertError), rv_actionLoading := None\<rparr>, st1)
           | (None, st1) \<Rightarrow>
               (case set_project_in_progress env (pj_id pj) st1 of
                  (Some updateError, st2) \<Rightarrow>
                    (pg0\<lparr>rv_message := Some (StoreError updateError),
                        rv_actionLoading := None\<rparr>, st2)
                | (None, st2) \<Rightarrow>
                    (let st3 = snd (accept_proposal env (pr_id proposal) st2);
                         st4 = snd (reject_siblings env (pr_id proposal) (pj_id pj) st3)
                     in (pg0\<lparr>rv_message := Some ContractCreated,
                             rv_project := Some (pj\<lparr>pj_status := ''in_progress''\<rparr>),
                             rv_proposals :=
                               map (\<lambda>p. if pr_id p = pr_id proposal
                                         then p\<lparr>pr_status := ''accepted''\<rparr>
                                         else p\<lparr>pr_status := ''rejected''\<rparr>) (rv_proposals pg0),
                             rv_actionLoading := None\<rparr>, st4)))))"

text \<open>
  The Hire button of a listed proposal: the page is past its guards (loaded, a project, the
  client role), the proposal is shown as pending, and no hire is in flight (\<open>disabled\<close> is
  \<open>!!actionLoading\<close>).
\<close>

definition hire_offered :: "review_page \<Rightarrow> proposal \<Rightarrow> bool" where
  "hire_offered pg proposal \<longleftrightarrow>
     \<not> rv_loading pg \<and> rv_project pg \<noteq> None \<and> rv_role pg = Some ''client'' \<and>
     proposal \<in> set (rv_proposals pg) \<and> pr_status proposal = ''pending'' \<and>
     (case rv_actionLoading pg of None \<Rightarrow> True | Some a \<Rightarrow> a = [])"

section \<open>Contract dashboard (src/pages/contracts/[id].tsx)\<close>

text \<open>
  Each read and write of the dashboard may fail at the store with a message;
  \<open>not_single\<close> is the library's message when \<open>.single()\<close> does not find exactly one row,
  \<open>now\<close> the timestamp an update stamps.
\<close>

record dash_env =
  profile_fetch_fails :: bool
  update_fails :: "string option"
  contract_fetch_fails :: "string option"
  milestones_fetch_fails :: "string option"
  not_single :: string
  now :: string

text \<open>The error line: the caught error's message, or a fixed (non-ASCII) text when it is empty.\<close>

datatype dash_error = ErrorMessage string | FetchFailed | UpdateFailed

text \<open>
  The state cells of the component, and with them \<open>dp_id\<close>, the contract id of the route
  (\<open>router.query.id\<close>), which every call reads afresh. Going to another contract's route
  changes \<open>dp_id\<close> alone: the component stays mounted and keeps what its cells hold.
\<close>

record dash_page =
  dp_id :: string
  dp_contract :: "contract option"
  dp_milestones :: "milestone list"
  dp_profile :: "profile option"
  dp_loading :: bool
  dp_error :: "dash_error option"
  dp_actionLoading :: bool

text \<open>\<open>fetchProfile\<close>: the profile row of the session's user; nothing on an error.\<close>

definition fetchProfile :: "dash_env \<Rightarrow> store \<Rightarrow> string option \<Rightarrow> dash_page \<Rightarrow> dash_page" where
  "fetchProfile env st user pg =
     (case user of
        None \<Rightarrow> pg
      | Some uid \<Rightarrow>
          pg\<lparr>dp_profile :=
               (if profile_fetch_fails env then None
                else single (filter (\<lambda>p. pf_id p = uid) (profiles st)))\<rparr>)"

definition fetchContractAndMilestones :: "dash_env \<Rightarrow> store \<Rightarrow> dash_page \<Rightarrow> dash_page" where
  "fetchContractAndMilestones env st pg =
     (let pg0 = pg\<lparr>dp_loading := True, dp_error := None\<rparr>;
          failed = (\<lambda>p msg. p\<lparr>dp_error := Some (if msg = [] then FetchFailed else ErrorMessage msg),
                                dp_loading := False\<rparr>)
      in case (case contract_fetch_fails env of
                 Some e \<Rightarrow> Inl e
               | None \<Rightarrow>
                   (case single (filter (\<lambda>c. ct_id c = dp_id pg0) (contracts st)) of
                      Some c \<Rightarrow> Inr c
                    | None \<Rightarrow> Inl (not_single env))) of
           Inl e \<Rightarrow> failed pg0 e
         | Inr contractData \<Rightarrow>
             (let pg1 = pg0\<lparr>dp_contract := Some contractData\<rparr> in
              case milestones_fetch_fails env of
                Some e \<Rightarrow> failed pg1 e
              | None \<Rightarrow>
                  pg1\<lparr>dp_milestones :=
                        sort_key ms_created_at
                          (filter (\<lambda>m. ms_contract_id m = dp_id pg0) (milestones st)),
                      dp_loading := False\<rparr>))"

text \<open>
  The page before its first load, the effect that loads it once id and session are there,
  and the same effect run again when the route's id changes (its dependencies are the id
  and the session). No cell is cleared before a reload, so a read that fails leaves the
  earlier contract or milestones in place.
\<close>

definition initial_dash :: "string \<Rightarrow> dash_page" where
  "initial_dash contract_id =
     \<lparr>dp_id = contract_id, dp_contract = None, dp_milestones = [], dp_profile = None,
      dp_loading = True, dp_error = None, dp_actionLoading = False\<rparr>"

definition on_load :: "dash_env \<Rightarrow> store \<Rightarrow> string option \<Rightarrow> dash_page \<Rightarrow> dash_page" where
  "on_load env st user pg =
     (if dp_id pg \<noteq> [] \<and> user \<noteq> None
      then fetchContractAndMilestones env st (fetchProfile env st user pg)
      else pg)"

definition navigate ::
  "dash_env \<Rightarrow> store \<Rightarrow> string option \<Rightarrow> string \<Rightarrow> dash_page \<Rightarrow> dash_page" where
  "navigate env st user contract_id pg =
     (if contract_id = dp_id pg then pg
      else on_load env st user (pg\<lparr>dp_id := contract_id\<rparr>))"

text \<open>
  \<open>updateMilestoneStatus\<close>: one write of the new status and the timestamp to the rows
  with the milestone's id, then a reload. The current status is not read.
\<close>

definition updateMilestoneStatus ::
  "dash_env \<Rightarrow> store \<Rightarrow> dash_page \<Rightarrow> string \<Rightarrow> string \<Rightarrow> dash_page \<times> store" where
  "updateMilestoneStatus env st pg milestoneId newStatus =
     (let pg0 = pg\<lparr>dp_actionLoading := True, dp_error := None\<rparr> in
      case update_fails env of
        Some e \<Rightarrow>
          (pg0\<lparr>dp_error := Some (if e = [] then UpdateFailed else ErrorMessage e),
              dp_actionLoading := False\<rparr>, st)
      | None \<Rightarrow>
          (let st1 = st\<lparr>milestones :=
                 update_where (\<lambda>m. ms_id m = milestoneId)
                   (\<lambda>m. m\<lparr>ms_status := newStatus, ms_updated_at := now env\<rparr>) (milestones st)\<rparr>
           in ((fetchContractAndMilestones env st1 pg0)\<lparr>dp_actionLoading := False\<rparr>, st1)))"

datatype action = Fund | Release | Submit

text \<open>The status each handler wrapper asks for.\<close>

fun requested :: "action \<Rightarrow> string" where
  "requested Fund = ''funded''"
| "requested Release = ''released''"
| "requested Submit = ''in_review''"

definition isClient :: "dash_page \<Rightarrow> bool" where
  "isClient pg =
     (case dp_profile pg of
        None \<Rightarrow> False
      | Some pf \<Rightarrow>
          pf_role pf = ''client'' \<and>
          (case dp_contract pg of None \<Rightarrow> False | Some c \<Rightarrow> ct_client_id c = pf_id pf))"

definition isFreelancer :: "dash_page \<Rightarrow> bool" where
  "isFreelancer pg =
     (case dp_profile pg of
        None \<Rightarrow> False
      | Some pf \<Rightarrow>
          pf_role pf = ''freelancer'' \<and>
          (case dp_contract pg of None \<Rightarrow> False | Some c \<Rightarrow> ct_freelancer_id c = pf_id pf))"

text \<open>The buttons drawn beside a milestone, from the status the page holds for it.\<close>

definition buttons :: "dash_page \<Rightarrow> milestone \<Rightarrow> action list" where
  "buttons pg m =
     (if isClient pg \<and> ms_status m = ''pending'' then [Fund] else []) @
     (if isClient pg \<and> (ms_status m = ''funded'' \<or> ms_status m = ''in_review'')
      then [Release] else []) @
     (if isFreelancer pg \<and> ms_status m = ''funded'' then [Submit] else [])"

text \<open>
  What the component returns: the loading line, the no-access notice, or the dashboard with
  the contract, the error line and each milestone with its buttons (all disabled while an
  action is in flight).
\<close>

datatype view =
    Loading
  | NoAccess
  | Dashboard contract "dash_error option" bool "(milestone \<times> action list) list"

definition render :: "dash_page \<Rightarrow> view" where
  "render pg =
     (if dp_loading pg then Loading
      else case dp_contract pg of
             None \<Rightarrow> NoAccess
           | Some c \<Rightarrow>
               if \<not> isClient pg \<and> \<not> isFreelancer pg then NoAccess
               else Dashboard c (dp_error pg) (dp_actionLoading pg)
                      (map (\<lambda>m. (m, buttons pg m)) (dp_milestones pg)))"

text \<open>
  Pressing button \<open>a\<close> of milestone \<open>m\<close>: nothing (\<open>None\<close>) unless the rendered dashboard
  shows that button enabled; then the wrapper's call of \<open>updateMilestoneStatus\<close>.
\<close>

definition press ::
  "dash_env \<Rightarrow> store \<Rightarrow> dash_page \<Rightarrow> milestone \<Rightarrow> action \<Rightarrow> (dash_page \<times> store) option" where
  "press env st pg m a =
     (case render pg of
        Dashboard c err disabled rows \<Rightarrow>
          if \<not> disabled \<and> (m, buttons pg m) \<in> set rows \<and> a \<in> set (buttons pg m)
          then Some (updateMilestoneStatus env st pg (ms_id m) (requested a))
          else None
      | _ \<Rightarrow> None)"

text \<open>
  What a load that ends without an error leaves on the page: the contract held is the one
  of the route, and the milestones held are rows of that contract. A reload with a failed
  read after a change of route need not leave it so.
\<close>

definition coherent :: "dash_page \<Rightarrow> bool" where
  "coherent pg \<longleftrightarrow>
     (case dp_contract pg of None \<Rightarrow> True | Some c \<Rightarrow> ct_id c = dp_id pg) \<and>
     list_all (\<lambda>m. ms_contract_id m = dp_id pg) (dp_milestones pg)"

section \<open>Concrete inputs\<close>

definition server0 :: server where
  "server0 = \<lparr>invoices = Map.empty, timers = [], clock = 5\<rparr>"

definition create_req :: "rat \<Rightarrow> string \<Rightarrow> string \<Rightarrow> request" where
  "create_req a c m =
     \<lparr>req_method = ''POST'',
      body = JObj [(''amount'', JNum a), (''contractId'', JStr c), (''milestoneId'', JStr m)],
      query_invoice_id = QMissing\<rparr>"

definition poll_req :: "string \<Rightarrow> request" where
  "poll_req i = \<lparr>req_method = ''GET'', body = JUndefined, query_invoice_id = QOne i\<rparr>"

definition no_contract_req :: request where
  "no_contract_req =
     \<lparr>req_method = ''POST'',
      body = JObj [(''amount'', JNum 100), (''milestoneId'', JStr ''m1'')],
      query_invoice_id = QMissing\<rparr>"

definition many_req :: "string list \<Rightarrow> request" where
  "many_req ids = \<lparr>req_method = ''GET'', body = JUndefined, query_invoice_id = QMany ids\<rparr>"

text \<open>The users: alice and eve are clients, bob and carol freelancers.\<close>

definition alice :: profile where
  "alice = \<lparr>pf_id = ''alice'', pf_role = ''client''\<rparr>"

definition bob :: profile where
  "bob = \<lparr>pf_id = ''bob'', pf_role = ''freelancer''\<rparr>"

definition carol :: profile where
  "carol = \<lparr>pf_id = ''carol'', pf_role = ''freelancer''\<rparr>"

definition eve :: profile where
  "eve = \<lparr>pf_id = ''eve'', pf_role = ''client''\<rparr>"

text \<open>
  Alice's job with two pending bids, her review page as it loads, and stores that fail
  chosen writes.
\<close>

definition job0 :: project where
  "job0 = \<lparr>pj_id = ''P'', pj_title = ''Logo'', pj_status = ''open'',
           pj_client_id = ''alice'', pj_budget = Some 500\<rparr>"

definition bid0 :: proposal where
  "bid0 = \<lparr>pr_id = ''p0'', pr_freelancer_id = ''bob'', pr_proposed_budget = Some 400,
           pr_cover_letter = Some ''hello'', pr_status = ''pending'', pr_created_at = 2\<rparr>"

definition bid1 :: proposal where
  "bid1 = \<lparr>pr_id = ''p1'', pr_freelancer_id = ''carol'', pr_proposed_budget = None,
           pr_cover_letter = None, pr_status = ''pending'', pr_created_at = 1\<rparr>"

definition row0 :: proposal_row where
  "row0 = \<lparr>pr_id = ''p0'', pr_freelancer_id = ''bob'', pr_proposed_budget = Some 400,
           pr_cover_letter = Some ''hello'', pr_status = ''pending'', pr_created_at = 2,
           pr_project_id = ''P''\<rparr>"

definition row1 :: proposal_row where
  "row1 = \<lparr>pr_id = ''p1'', pr_freelancer_id = ''carol'', pr_proposed_budget = None,
           pr_cover_letter = None, pr_status = ''pending'', pr_created_at = 1,
           pr_project_id = ''P''\<rparr>"

definition store0 :: store where
  "store0 = \<lparr>profiles = [alice, bob, carol, eve], projects = [job0],
             proposals = [row0, row1], contracts = [], milestones = []\<rparr>"

definition quiet :: load_env where
  "quiet = \<lparr>user_fails = False, profile_fails = False, project_fails = False,
            proposals_fails = False\<rparr>"

definition page0 :: review_page where
  "page0 = fetchData quiet store0 (Some ''alice'') ''P'' initial_review"

definition failing :: "step list \<Rightarrow> string \<Rightarrow> hire_env" where
  "failing steps cid =
     \<lparr>fails = (\<lambda>s. if s \<in> set steps then Some ''timeout'' else None),
      today = ''2024-05-01'', new_contract_id = cid\<rparr>"

text \<open>
  A first hire whose project update fails, and the owner's second try from the page as the
  first left it, with both proposal updates failing.
\<close>

definition first_try :: "review_page \<times> store" where
  "first_try = handleHire (failing [SetProjectInProgress] ''c1'') store0 page0 bid0"

definition retry :: "review_page \<times> store" where
  "retry = handleHire (failing [AcceptProposal, RejectSiblings] ''c2'')
             (snd first_try) (fst first_try) bid0"

text \<open>The same job already in progress, with the two bids still pending, and its page.\<close>

definition busy_store :: store where
  "busy_store = store0\<lparr>projects := [job0\<lparr>pj_status := ''in_progress''\<rparr>]\<rparr>"

definition busy_page :: review_page where
  "busy_page = fetchData quiet busy_store (Some ''alice'') ''P'' initial_review"

text \<open>
  A contract between alice and bob with one pending milestone, a store that fails nothing,
  and the dashboard as a signed-in user first loads it.
\<close>

definition deal0 :: contract where
  "deal0 = \<lparr>ct_id = ''k1'', ct_project_id = ''P'', ct_client_id = ''alice'',
            ct_freelancer_id = ''bob'', ct_start_date = ''2024-05-01'',
            ct_total_amount = Some 400, ct_status = ''active''\<rparr>"

definition stone0 :: milestone where
  "stone0 = \<lparr>ms_id = ''m1'', ms_contract_id = ''k1'', ms_title = ''Draft'',
             ms_description = ''first draft'', ms_amount = 200, ms_status = ''pending'',
             ms_created_at = 1, ms_updated_at = ''t0''\<rparr>"

definition escrow0 :: store where
  "escrow0 = \<lparr>profiles = [alice, bob, carol, eve], projects = [], proposals = [],
              contracts = [deal0], milestones = [stone0]\<rparr>"

definition calm :: dash_env where
  "calm = \<lparr>profile_fetch_fails = False, update_fails = None, contract_fetch_fails = None,
           milestones_fetch_fails = None, not_single = ''no single row'', now = ''t1''\<rparr>"

definition opened :: "profile \<Rightarrow> store \<Rightarrow> dash_page" where
  "opened who st = on_load calm st (Some (pf_id who)) (initial_dash ''k1'')"






text \<open>
  Alice has the dashboard open in two tabs. In the second she funds and then releases the
  milestone; then she presses Fund in the first, which still shows it pending.
\<close>

definition fund_b :: "dash_page \<times> store" where
  "fund_b = updateMilestoneStatus calm escrow0 (opened alice escrow0) ''m1'' ''funded''"

definition release_b :: "dash_page \<times> store" where
  "release_b = updateMilestoneStatus calm (snd fund_b) (fst fund_b) ''m1'' ''released''"

definition fund_a :: "dash_page \<times> store" where
  "fund_a = updateMilestoneStatus calm (snd release_b) (opened alice escrow0) ''m1'' ''funded''"

section \<open>Properties of the invoice endpoint\<close>

subsection \<open>Decimal rendering is injective\<close>

lemma digit_char_inj: "a < 10 \<Longrightarrow> b < 10 \<Longrightarrow> digit_char a = digit_char b \<Longrightarrow> a = b"
  unfolding digit_char_def by (subst (asm) nth_eq_iff_index_eq) simp_all

lemma digits_nonempty: "digits n \<noteq> []"
  by (subst digits.simps) simp

lemma digits_inj: "digits n = digits m \<Longrightarrow> n = m"
proof (induction n arbitrary: m rule: digits.induct)
  case (1 n)
  show ?case
  proof (cases "n < 10")
    case True
    then have dn: "digits n = [digit_char n]" by (subst digits.simps) simp
    show ?thesis
    proof (cases "m < 10")
      case m: True
      then have "digits m = [digit_char m]" by (subst digits.simps) simp
      with dn "1.prems" have "digit_char n = digit_char m" by simp
      with True m show ?thesis by (rule digit_char_inj)
    next
      case False
      then have "digits m = digits (m div 10) @ [digit_char (m mod 10)]"
        by (subst digits.simps) simp
      with dn "1.prems" digits_nonempty [of "m div 10"] show ?thesis by simp
    qed
  next
    case False
    then have dn: "digits n = digits (n div 10) @ [digit_char (n mod 10)]"
      by (subst digits.simps) simp
    show ?thesis
    proof (cases "m < 10")
      case True
      then have "digits m = [digit_char m]" by (subst digits.simps) simp
      with dn "1.prems" digits_nonempty [of "n div 10"] show ?thesis by simp
    next
      case m: False
      then have "digits m = digits (m div 10) @ [digit_char (m mod 10)]"
        by (subst digits.simps) simp
      with dn "1.prems" have a: "digits (n div 10) = digits (m div 10)"
        and b: "digit_char (n mod 10) = digit_char (m mod 10)" by simp_all
      from "1.IH" [OF False a] have "n div 10 = m div 10" .
      moreover have "n mod 10 = m mod 10"
        by (rule digit_char_inj [OF _ _ b]) simp_all
      ultimately show ?thesis by (metis div_mult_mod_eq)
    qed
  qed
qed

lemma digits_5: "digits 5 = ''5''"
  by (simp add: digits.simps digit_char_def)

lemma mock_not_inherited: "''MOCK-'' @ s \<notin> set object_prototype_keys"
  by (simp add: object_prototype_keys_def)

subsection \<open>The handler, branch by branch\<close>

lemma handler_post_ok:
  assumes "req_method req = ''POST''"
    and "get_prop (body req) ''amount'' = Some a" and "truthy a"
    and "get_prop (body req) ''contractId'' = Some c" and "truthy c"
    and "get_prop (body req) ''milestoneId'' = Some m" and "truthy m"
  shows "handler st req =
     (Response 200 (InvoiceBody (''MOCK-'' @ digits (clock st))
                      (qr_prefix @ encodeURIComponent (''MOCK-'' @ digits (clock st)))),
      st\<lparr>invoices := (invoices st)
             (''MOCK-'' @ digits (clock st) \<mapsto> \<lparr>status = Pending, createdAt = clock st\<rparr>),
         timers := timers st @ [(clock st + pay_delay, ''MOCK-'' @ digits (clock st))]\<rparr>)"
  using assms by (simp add: handler_def Let_def)

lemma handler_post_rejected:
  assumes "req_method req = ''POST''"
    and "get_prop (body req) ''amount'' = Some a"
    and "get_prop (body req) ''contractId'' = Some c"
    and "get_prop (body req) ''milestoneId'' = Some m"
    and "\<not> truthy a \<or> \<not> truthy c \<or> \<not> truthy m"
  shows "handler st req =
     (Response 400 (ErrorBody ''amount, contractId and milestoneId are required''), st)"
  using assms by (auto simp: handler_def)

lemma handler_get_own:
  assumes "req_method poll = ''GET''" and "query_invoice_id poll = QOne k" and "k \<noteq> []"
    and "invoices st k = Some r"
  shows "handler st poll = (Response 200 (StatusBody (Some (status r))), st)"
  using assms by (simp add: handler_def lookup_invoice_def)

lemma handler_get_absent:
  assumes "req_method req = ''GET''" and "query_invoice_id req = QOne k" and "k \<noteq> []"
    and "invoices st k = None" and "k \<notin> set object_prototype_keys"
  shows "handler st req = (Response 404 (ErrorBody ''invoice not found''), st)"
  using assms by (simp add: handler_def lookup_invoice_def)

lemma handler_get_missing:
  assumes "req_method req = ''GET''" and "query_invoice_id req = QMissing"
  shows "handler st req = (Response 400 (ErrorBody ''invoice_id query param is required''), st)"
  using assms by (simp add: handler_def)

lemma handler_other_method:
  assumes "req_method req \<noteq> ''POST''" and "req_method req \<noteq> ''GET''"
  shows "handler st req = (Response 405 (ErrorBody ''Method not allowed''), st)"
  using assms by (simp add: handler_def)

lemma handler_created_id:
  assumes "handler st req = (Response 200 (InvoiceBody i u), st')"
  shows "i = ''MOCK-'' @ digits (clock st)"
  using assms
  by (auto simp: handler_def Let_def
      split: if_splits option.splits qparam.splits looked_up.splits)

text \<open>The table after a request: unchanged, or one entry set to pending with a timer.\<close>

lemma handler_cases:
  "snd (handler st req) = st \<or>
   snd (handler st req) =
     st\<lparr>invoices := (invoices st)
             (''MOCK-'' @ digits (clock st) \<mapsto> \<lparr>status = Pending, createdAt = clock st\<rparr>),
         timers := timers st @ [(clock st + pay_delay, ''MOCK-'' @ digits (clock st))]\<rparr>"
  by (simp add: handler_def Let_def split: option.split qparam.split looked_up.split)

lemma foldl_mark_paid:
  "foldl mark_paid invs ks k =
     (case invs k of None \<Rightarrow> None
      | Some r \<Rightarrow> Some (if k \<in> set ks then r\<lparr>status := Paid\<rparr> else r))"
proof (induction ks arbitrary: invs)
  case Nil
  show ?case by (simp split: option.split)
next
  case (Cons x ks)
  show ?case
    by (simp add: Cons.IH) (auto simp: mark_paid_def split: option.splits)
qed

subsection \<open>The payment timer\<close>

lemma settling_iff:
  "settling t0 st \<longleftrightarrow>
     (\<exists>r. invoices st (''MOCK-'' @ digits t0) = Some r \<and>
        (status r = Paid \<or>
         (clock st < t0 + pay_delay \<and>
          (\<exists>due. due \<le> t0 + pay_delay \<and> (due, ''MOCK-'' @ digits t0) \<in> set (timers st)))))"
  by (auto simp: settling_def list_ex_iff split: option.splits)

lemma settling_handler: "settling t0 st \<Longrightarrow> settling t0 (snd (handler st req))"
proof -
  assume s: "settling t0 st"
  from handler_cases [of st req] show ?thesis
  proof
    assume "snd (handler st req) = st" with s show ?thesis by simp
  next
    assume e: "snd (handler st req) =
     st\<lparr>invoices := (invoices st)
             (''MOCK-'' @ digits (clock st) \<mapsto> \<lparr>status = Pending, createdAt = clock st\<rparr>),
         timers := timers st @ [(clock st + pay_delay, ''MOCK-'' @ digits (clock st))]\<rparr>"
    show ?thesis
    proof (cases "clock st = t0")
      case True
      then show ?thesis unfolding e settling_iff by (auto simp: pay_delay_def)
    next
      case False
      then have "digits (clock st) \<noteq> digits t0" by (auto dest: digits_inj)
      with s show ?thesis unfolding e settling_iff by auto
    qed
  qed
qed

lemma settling_advance: "settling t0 st \<Longrightarrow> settling t0 (advance d st)"
  unfolding settling_iff advance_def Let_def
  by (auto simp: foldl_mark_paid image_iff split: option.splits)

lemma clock_handler: "clock (snd (handler st req)) = clock st"
  using handler_cases [of st req] by auto

lemma clock_advance: "clock (advance d st) = clock st + d"
  by (simp add: advance_def Let_def)

lemma clock_run: "clock (run st evs) = clock st + elapsed evs"
  by (induction st evs rule: run.induct) (simp_all add: clock_handler clock_advance)

lemma settling_run: "settling t0 st \<Longrightarrow> settling t0 (run st evs)"
  by (induction st evs rule: run.induct) (simp_all add: settling_handler settling_advance)

lemma settling_paid:
  assumes "settling t0 st" and "t0 + pay_delay \<le> clock st"
  shows "\<exists>r. invoices st (''MOCK-'' @ digits t0) = Some r \<and> status r = Paid"
  using assms unfolding settling_iff by auto

text \<open>
  Claim C6. A creation request with a positive amount and non-empty contract and milestone
  ids answers 200 with the invoice id; polling that id at once answers \<open>pending\<close>; and
  after any course of events in which at least the fixed delay has elapsed (whatever
  requests arrive meanwhile, none needed from the caller) polling it answers \<open>paid\<close>.
\<close>

theorem invoice_pending_then_paid:
  assumes "req_method req = ''POST''"
    and "get_prop (body req) ''amount'' = Some (JNum a)" and "0 < a"
    and "get_prop (body req) ''contractId'' = Some (JStr c)" and "c \<noteq> []"
    and "get_prop (body req) ''milestoneId'' = Some (JStr m)" and "m \<noteq> []"
    and "req_method poll = ''GET''"
    and "query_invoice_id poll = QOne (''MOCK-'' @ digits (clock st))"
  shows "fst (handler st req) =
           Response 200 (InvoiceBody (''MOCK-'' @ digits (clock st))
             (qr_prefix @ encodeURIComponent (''MOCK-'' @ digits (clock st)))) \<and>
         fst (handler (snd (handler st req)) poll) = Response 200 (StatusBody (Some Pending)) \<and>
         (\<forall>evs. pay_delay \<le> elapsed evs \<longrightarrow>
            fst (handler (run (snd (handler st req)) evs) poll) =
              Response 200 (StatusBody (Some Paid)))"
proof -
  let ?i = "''MOCK-'' @ digits (clock st)"
  let ?st' = "snd (handler st req)"
  have post: "handler st req =
     (Response 200 (InvoiceBody ?i (qr_prefix @ encodeURIComponent ?i)),
      st\<lparr>invoices := (invoices st)(?i \<mapsto> \<lparr>status = Pending, createdAt = clock st\<rparr>),
         timers := timers st @ [(clock st + pay_delay, ?i)]\<rparr>)"
    using assms(3,5,7)
    by (intro handler_post_ok [OF assms(1) assms(2) _ assms(4) _ assms(6)]) simp_all
  have own: "invoices ?st' ?i = Some \<lparr>status = Pending, createdAt = clock st\<rparr>"
    by (simp add: post)
  have now: "fst (handler ?st' poll) = Response 200 (StatusBody (Some Pending))"
    using handler_get_own [OF assms(8,9) _ own] by simp
  have s: "settling (clock st) ?st'"
    unfolding settling_iff by (auto simp: post pay_delay_def)
  have later: "fst (handler (run ?st' evs) poll) = Response 200 (StatusBody (Some Paid))"
    if d: "pay_delay \<le> elapsed evs" for evs
  proof -
    have "clock (run ?st' evs) = clock st + elapsed evs"
      by (simp add: clock_run clock_handler)
    with d have "clock st + pay_delay \<le> clock (run ?st' evs)" by simp
    with settling_run [OF s, of evs] obtain r
      where r: "invoices (run ?st' evs) ?i = Some r" and p: "status r = Paid"
      by (blast dest: settling_paid)
    from handler_get_own [OF assms(8,9) _ r] p show ?thesis by simp
  qed
  from post now later show ?thesis by simp
qed

theorem invoice_pending_then_paid_witness:
  "fst (handler server0 (create_req 100 ''c1'' ''m1'')) =
     Response 200 (InvoiceBody ''MOCK-5'' (qr_prefix @ ''MOCK-5'')) \<and>
   fst (handler (snd (handler server0 (create_req 100 ''c1'' ''m1''))) (poll_req ''MOCK-5'')) =
     Response 200 (StatusBody (Some Pending)) \<and>
   fst (handler (run (snd (handler server0 (create_req 100 ''c1'' ''m1'')))
                   [Elapse 4000, Request (poll_req ''MOCK-5''), Elapse 6000])
          (poll_req ''MOCK-5'')) =
     Response 200 (StatusBody (Some Paid))"
proof -
  let ?st = "snd (handler server0 (create_req 100 ''c1'' ''m1''))"
  let ?evs = "[Elapse 4000, Request (poll_req ''MOCK-5''), Elapse 6000]"
  have e: "encodeURIComponent ''MOCK-5'' = ''MOCK-5''"
    by (simp add: encodeURIComponent_def unreserved_def)
  have d: "pay_delay \<le> elapsed ?evs"
    by (simp add: pay_delay_def)
  have i: "''MOCK-'' @ digits (clock server0) = ''MOCK-5''"
    by (simp add: server0_def digits_5)
  have "fst (handler server0 (create_req 100 ''c1'' ''m1'')) =
           Response 200 (InvoiceBody (''MOCK-'' @ digits (clock server0))
             (qr_prefix @ encodeURIComponent (''MOCK-'' @ digits (clock server0)))) \<and>
        fst (handler ?st (poll_req ''MOCK-5'')) = Response 200 (StatusBody (Some Pending)) \<and>
        (\<forall>evs. pay_delay \<le> elapsed evs \<longrightarrow>
            fst (handler (run ?st evs) (poll_req ''MOCK-5'')) =
              Response 200 (StatusBody (Some Paid)))"
    by (rule invoice_pending_then_paid [where a = 100 and c = "''c1''" and m = "''m1''"])
       (simp_all add: create_req_def poll_req_def server0_def digits_5)
  with d show ?thesis unfolding i e by blast
qed

lemma encode_mock5: "encodeURIComponent ''MOCK-5'' = ''MOCK-5''"
  by (simp add: encodeURIComponent_def unreserved_def)

text \<open>
  Claim C7, as the code has it. A creation request whose body can be destructured is
  answered 400, with no invoice stored and no timer armed, whenever one of amount,
  contractId and milestoneId is missing or falsy (zero, the empty string, null, false);
  when all three are truthy (a negative amount is) it is answered 200 and a pending
  invoice is stored.
\<close>

theorem create_rejected_when_falsy:
  assumes "req_method req = ''POST''"
    and "get_prop (body req) ''amount'' = Some a"
    and "get_prop (body req) ''contractId'' = Some c"
    and "get_prop (body req) ''milestoneId'' = Some m"
  shows "(\<not> truthy a \<or> \<not> truthy c \<or> \<not> truthy m \<longrightarrow>
            handler st req =
              (Response 400 (ErrorBody ''amount, contractId and milestoneId are required''), st)) \<and>
         (truthy a \<and> truthy c \<and> truthy m \<longrightarrow>
            fst (handler st req) =
              Response 200 (InvoiceBody (''MOCK-'' @ digits (clock st))
                (qr_prefix @ encodeURIComponent (''MOCK-'' @ digits (clock st)))) \<and>
            invoices (snd (handler st req)) (''MOCK-'' @ digits (clock st)) =
              Some \<lparr>status = Pending, createdAt = clock st\<rparr>)"
proof (intro conjI impI)
  assume "\<not> truthy a \<or> \<not> truthy c \<or> \<not> truthy m"
  with assms show "handler st req =
      (Response 400 (ErrorBody ''amount, contractId and milestoneId are required''), st)"
    by (rule handler_post_rejected)
next
  assume t: "truthy a \<and> truthy c \<and> truthy m"
  then have p: "handler st req =
     (Response 200 (InvoiceBody (''MOCK-'' @ digits (clock st))
                      (qr_prefix @ encodeURIComponent (''MOCK-'' @ digits (clock st)))),
      st\<lparr>invoices := (invoices st)
             (''MOCK-'' @ digits (clock st) \<mapsto> \<lparr>status = Pending, createdAt = clock st\<rparr>),
         timers := timers st @ [(clock st + pay_delay, ''MOCK-'' @ digits (clock st))]\<rparr>)"
    by (intro handler_post_ok [OF assms(1) assms(2) _ assms(3) _ assms(4)]) simp_all
  show "fst (handler st req) =
      Response 200 (InvoiceBody (''MOCK-'' @ digits (clock st))
        (qr_prefix @ encodeURIComponent (''MOCK-'' @ digits (clock st))))"
    by (simp add: p)
  show "invoices (snd (handler st req)) (''MOCK-'' @ digits (clock st)) =
      Some \<lparr>status = Pending, createdAt = clock st\<rparr>"
    by (simp add: p)
qed

theorem create_rejected_when_falsy_witness:
  "handler server0 (create_req 0 ''c1'' ''m1'') =
     (Response 400 (ErrorBody ''amount, contractId and milestoneId are required''), server0) \<and>
   handler server0 no_contract_req =
     (Response 400 (ErrorBody ''amount, contractId and milestoneId are required''), server0) \<and>
   fst (handler server0 (create_req 100 ''c1'' ''m1'')) =
     Response 200 (InvoiceBody ''MOCK-5'' (qr_prefix @ ''MOCK-5'')) \<and>
   invoices (snd (handler server0 (create_req 100 ''c1'' ''m1''))) ''MOCK-5'' =
     Some \<lparr>status = Pending, createdAt = 5\<rparr>"
proof -
  have "handler server0 (create_req 0 ''c1'' ''m1'') =
     (Response 400 (ErrorBody ''amount, contractId and milestoneId are required''), server0)"
    using create_rejected_when_falsy
      [of "create_req 0 ''c1'' ''m1''" "JNum 0" "JStr ''c1''" "JStr ''m1''" server0]
    by (simp add: create_req_def)
  moreover have "handler server0 no_contract_req =
     (Response 400 (ErrorBody ''amount, contractId and milestoneId are required''), server0)"
    using create_rejected_when_falsy
      [of no_contract_req "JNum 100" JUndefined "JStr ''m1''" server0]
    by (simp add: no_contract_req_def)
  moreover have "fst (handler server0 (create_req 100 ''c1'' ''m1'')) =
     Response 200 (InvoiceBody ''MOCK-5'' (qr_prefix @ ''MOCK-5'')) \<and>
   invoices (snd (handler server0 (create_req 100 ''c1'' ''m1''))) ''MOCK-5'' =
     Some \<lparr>status = Pending, createdAt = 5\<rparr>"
    using create_rejected_when_falsy
      [of "create_req 100 ''c1'' ''m1''" "JNum 100" "JStr ''c1''" "JStr ''m1''" server0]
    by (simp add: create_req_def server0_def digits_5 encode_mock5)
  ultimately show ?thesis by simp
qed

text \<open>
  The claim as stated fails: a negative amount passes the check, the request is answered
  200 and the invoice is stored.
\<close>

theorem negative_amount_counterexample:
  "fst (handler server0 (create_req (- 5) ''c1'' ''m1'')) =
     Response 200 (InvoiceBody ''MOCK-5'' (qr_prefix @ ''MOCK-5'')) \<and>
   invoices (snd (handler server0 (create_req (- 5) ''c1'' ''m1''))) ''MOCK-5'' =
     Some \<lparr>status = Pending, createdAt = 5\<rparr>"
  by (simp add: handler_def create_req_def server0_def digits_5 encode_mock5 Let_def)

text \<open>
  Claim C8, where the code departs from it. A status request for a name that no invoice
  has but \<open>Object.prototype\<close> provides (\<open>toString\<close>, \<open>constructor\<close>, ...) finds the
  inherited member in the plain object, so it is answered 200 with no status instead of
  404.
\<close>

theorem inherited_name_not_404:
  assumes "req_method req = ''GET''" and "query_invoice_id req = QOne k"
    and "k \<in> set object_prototype_keys" and "invoices st k = None"
  shows "handler st req = (Response 200 (StatusBody None), st)"
proof -
  from assms(3) have "k \<noteq> []" by (auto simp: object_prototype_keys_def)
  with assms show ?thesis by (simp add: handler_def lookup_invoice_def)
qed

theorem inherited_name_not_404_witness:
  "handler server0 (poll_req ''toString'') = (Response 200 (StatusBody None), server0)"
  by (rule inherited_name_not_404 [where k = "''toString''"])
     (simp_all add: poll_req_def server0_def object_prototype_keys_def)

text \<open>
  Claim C9, as the code has it. The id is the clock reading in milliseconds behind a fixed
  prefix: two successful creations return the same id exactly when the clock read the same
  at both.
\<close>

theorem invoice_ids_equal_iff_same_clock:
  assumes "handler st1 req1 = (Response 200 (InvoiceBody i1 u1), st1')"
    and "handler st2 req2 = (Response 200 (InvoiceBody i2 u2), st2')"
  shows "i1 = i2 \<longleftrightarrow> clock st1 = clock st2"
  using handler_created_id [OF assms(1)] handler_created_id [OF assms(2)]
  by (auto dest: digits_inj)

theorem invoice_ids_equal_iff_same_clock_witness:
  "(''MOCK-5'' = ''MOCK-5'') = (clock server0 = clock (snd (handler server0 (create_req 100 ''c1'' ''m1'')))) \<and>
   (''MOCK-5'' = ''MOCK-9'') =
     (clock server0 = clock (advance 4 (snd (handler server0 (create_req 100 ''c1'' ''m1'')))))"
proof -
  let ?st1 = "snd (handler server0 (create_req 100 ''c1'' ''m1''))"
  have a: "handler server0 (create_req 100 ''c1'' ''m1'') =
      (Response 200 (InvoiceBody ''MOCK-5'' (qr_prefix @ ''MOCK-5'')), ?st1)"
    by (simp add: handler_def create_req_def server0_def digits_5 encode_mock5 Let_def)
  have b: "handler ?st1 (create_req 7 ''c2'' ''m2'') =
      (Response 200 (InvoiceBody ''MOCK-5'' (qr_prefix @ ''MOCK-5'')),
       snd (handler ?st1 (create_req 7 ''c2'' ''m2'')))"
    by (simp add: handler_def create_req_def server0_def digits_5 encode_mock5 Let_def)
  have d9: "digits 9 = ''9''" by (simp add: digits.simps digit_char_def)
  have e9: "encodeURIComponent ''MOCK-9'' = ''MOCK-9''"
    by (simp add: encodeURIComponent_def unreserved_def)
  have c: "handler (advance 4 ?st1) (create_req 7 ''c2'' ''m2'') =
      (Response 200 (InvoiceBody ''MOCK-9'' (qr_prefix @ ''MOCK-9'')),
       snd (handler (advance 4 ?st1) (create_req 7 ''c2'' ''m2'')))"
    by (simp add: handler_def create_req_def server0_def digits_5 encode_mock5 Let_def
        advance_def d9 e9)
  from invoice_ids_equal_iff_same_clock [OF a b] invoice_ids_equal_iff_same_clock [OF a c]
  show ?thesis by simp
qed

text \<open>
  The claim as stated fails: two creation requests handled within the same millisecond
  return the same id, and the second overwrites the record of the first.
\<close>

theorem same_millisecond_counterexample:
  "fst (handler server0 (create_req 100 ''c1'' ''m1'')) =
     Response 200 (InvoiceBody ''MOCK-5'' (qr_prefix @ ''MOCK-5'')) \<and>
   fst (handler (snd (handler server0 (create_req 100 ''c1'' ''m1''))) (create_req 7 ''c2'' ''m2'')) =
     Response 200 (InvoiceBody ''MOCK-5'' (qr_prefix @ ''MOCK-5''))"
  by (simp add: handler_def create_req_def server0_def digits_5 encode_mock5 Let_def)

text \<open>
  Claim C10. A status request whose \<open>invoice_id\<close> parameter arrives as an array is answered
  400 with the state untouched and whatever the table holds, and the answer is the one
  given when the parameter is missing.
\<close>

theorem repeated_invoice_id_rejected:
  assumes "req_method req = ''GET''" and "query_invoice_id req = QMany ids"
  shows "handler st req =
           (Response 400 (ErrorBody ''invoice_id query param is required''), st) \<and>
         fst (handler st req) = fst (handler st' (req\<lparr>query_invoice_id := QMissing\<rparr>))"
  using assms by (simp add: handler_def)

theorem repeated_invoice_id_rejected_witness:
  "handler (snd (handler server0 (create_req 100 ''c1'' ''m1''))) (many_req [''MOCK-5'', ''MOCK-5'']) =
     (Response 400 (ErrorBody ''invoice_id query param is required''),
      snd (handler server0 (create_req 100 ''c1'' ''m1''))) \<and>
   fst (handler (snd (handler server0 (create_req 100 ''c1'' ''m1''))) (many_req [''MOCK-5'', ''MOCK-5''])) =
     fst (handler server0 ((many_req [''MOCK-5'', ''MOCK-5''])\<lparr>query_invoice_id := QMissing\<rparr>))"
  by (rule repeated_invoice_id_rejected [where ids = "[''MOCK-5'', ''MOCK-5'']"])
     (simp_all add: many_req_def)

section \<open>Properties of the store reads\<close>

lemma single_Some_iff: "single rows = Some r \<longleftrightarrow> rows = [r]"
  by (cases rows rule: single.cases) auto

lemma single_filter: "single (filter sel rows) = Some r \<Longrightarrow> sel r \<and> r \<in> set rows"
proof -
  assume "single (filter sel rows) = Some r"
  then have "filter sel rows = [r]" by (simp add: single_Some_iff)
  then have "r \<in> set (filter sel rows)" by simp
  then show ?thesis by simp
qed

section \<open>Properties of the hire workflow\<close>

lemmas hire_defs = handleHire_def insert_contract_def set_project_in_progress_def
  accept_proposal_def reject_siblings_def write_step_def update_where_def new_contract_def
  failing_def Let_def

lemma page0_value:
  "page0 =
     \<lparr>rv_project = Some job0, rv_proposals = [bid0, bid1], rv_role = Some ''client'',
      rv_loading = False, rv_message = None, rv_actionLoading = None, rv_redirect = None\<rparr>"
  by (simp add: page0_def fetchData_def initial_review_def quiet_def store0_def selected_def
      alice_def bob_def carol_def eve_def job0_def bid0_def bid1_def row0_def row1_def Let_def)

lemma busy_page_value:
  "busy_page = page0\<lparr>rv_project := Some (job0\<lparr>pj_status := ''in_progress''\<rparr>)\<rparr>"
  unfolding page0_value
  by (simp add: busy_page_def busy_store_def fetchData_def initial_review_def quiet_def
      store0_def selected_def alice_def bob_def carol_def eve_def job0_def bid0_def bid1_def
      row0_def row1_def Let_def)

lemmas scene_defs = job0_def bid0_def bid1_def row0_def row1_def store0_def page0_value

subsection \<open>The load of the review page\<close>

text \<open>Only the client who owns the job gets its proposals listed, and so a Hire button.\<close>

lemma fetchData_lists_for_owner:
  assumes "p \<in> set (rv_proposals (fetchData env st user job_id initial_review))"
  shows "\<exists>uid pf proj. user = Some uid \<and> pf \<in> set (profiles st) \<and> pf_id pf = uid \<and>
           pf_role pf = ''client'' \<and>
           rv_project (fetchData env st user job_id initial_review) = Some proj \<and>
           proj \<in> set (projects st) \<and> pj_id proj = job_id \<and> pj_client_id proj = uid \<and>
           (\<exists>r \<in> set (proposals st). pr_project_id r = job_id \<and> p = selected r)"
  using assms
  by (auto simp: fetchData_def initial_review_def Let_def
      dest: single_filter split: if_splits option.splits)

subsection \<open>The store calls\<close>

lemma insert_contract_ok:
  "fails env CreateContract = None \<Longrightarrow>
   insert_contract env c st = (None, st\<lparr>contracts := contracts st @ [c]\<rparr>)"
  by (simp add: insert_contract_def write_step_def)

lemma insert_contract_failed:
  "fails env CreateContract = Some e \<Longrightarrow> insert_contract env c st = (Some e, st)"
  by (simp add: insert_contract_def write_step_def)

lemma set_project_ok:
  "fails env SetProjectInProgress = None \<Longrightarrow>
   set_project_in_progress env pid st =
     (None, st\<lparr>projects := update_where (\<lambda>r. pj_id r = pid)
                               (\<lambda>r. r\<lparr>pj_status := ''in_progress''\<rparr>) (projects st)\<rparr>)"
  by (simp add: set_project_in_progress_def write_step_def)

lemma set_project_failed:
  "fails env SetProjectInProgress = Some e \<Longrightarrow> set_project_in_progress env pid st = (Some e, st)"
  by (simp add: set_project_in_progress_def write_step_def)

lemma accept_proposal_others:
  "contracts (snd (accept_proposal env i st)) = contracts st \<and>
   projects (snd (accept_proposal env i st)) = projects st"
  by (simp add: accept_proposal_def write_step_def split: option.split)

lemma reject_siblings_others:
  "contracts (snd (reject_siblings env i p st)) = contracts st \<and>
   projects (snd (reject_siblings env i p st)) = projects st"
  by (simp add: reject_siblings_def write_step_def split: option.split)

lemma accept_proposal_ok:
  "fails env AcceptProposal = None \<Longrightarrow>
   proposals (snd (accept_proposal env i st)) =
     update_where (\<lambda>r. pr_id r = i) (\<lambda>r. r\<lparr>pr_status := ''accepted''\<rparr>) (proposals st)"
  by (simp add: accept_proposal_def write_step_def)

lemma reject_siblings_ok:
  "fails env RejectSiblings = None \<Longrightarrow>
   proposals (snd (reject_siblings env i p st)) =
     update_where (\<lambda>r. pr_id r \<noteq> i \<and> pr_project_id r = p)
       (\<lambda>r. r\<lparr>pr_status := ''rejected''\<rparr>) (proposals st)"
  by (simp add: reject_siblings_def write_step_def)

lemma in_update_where:
  assumes "r' \<in> set (update_where sel change rows)"
  obtains r where "r \<in> set rows" and "sel r" and "r' = change r"
    | "r' \<in> set rows" and "\<not> sel r'"
  using assms by (auto simp: update_where_def split: if_splits)

lemma chosen_accepted:
  assumes ok: "fails env AcceptProposal = None"
    and r: "r \<in> set (proposals (snd (reject_siblings env i p (snd (accept_proposal env i st)))))"
    and i: "pr_id r = i"
  shows "pr_status r = ''accepted''"
proof -
  let ?st3 = "snd (accept_proposal env i st)"
  have "r \<in> set (proposals ?st3)"
  proof (cases "fails env RejectSiblings")
    case None
    with r have "r \<in> set (update_where (\<lambda>r. pr_id r \<noteq> i \<and> pr_project_id r = p)
        (\<lambda>r. r\<lparr>pr_status := ''rejected''\<rparr>) (proposals ?st3))"
      by (simp add: reject_siblings_ok)
    then show ?thesis using i by (cases rule: in_update_where) simp_all
  next
    case (Some e)
    with r show ?thesis by (simp add: reject_siblings_def write_step_def)
  qed
  then have "r \<in> set (update_where (\<lambda>r. pr_id r = i)
      (\<lambda>r. r\<lparr>pr_status := ''accepted''\<rparr>) (proposals st))"
    by (simp add: accept_proposal_ok [OF ok])
  then show ?thesis using i by (cases rule: in_update_where) simp_all
qed

lemma siblings_rejected:
  assumes ok: "fails env RejectSiblings = None"
    and r: "r \<in> set (proposals (snd (reject_siblings env i p st)))"
    and i: "pr_id r \<noteq> i" "pr_project_id r = p"
  shows "pr_status r = ''rejected''"
proof -
  from r have "r \<in> set (update_where (\<lambda>r. pr_id r \<noteq> i \<and> pr_project_id r = p)
      (\<lambda>r. r\<lparr>pr_status := ''rejected''\<rparr>) (proposals st))"
    by (simp add: reject_siblings_ok [OF ok])
  then show ?thesis using i by (cases rule: in_update_where) simp_all
qed

lemma update_where_keeps:
  "(\<And>r. f (change r) = f r) \<Longrightarrow> map f (update_where sel change rows) = map f rows"
  by (simp add: update_where_def)

subsection \<open>The runs of \<open>handleHire\<close>\<close>

lemma handleHire_no_project:
  "rv_project pg = None \<Longrightarrow>
   handleHire env st pg proposal =
     (pg\<lparr>rv_message := Some JobNotFound, rv_actionLoading := None\<rparr>, st)"
  by (simp add: handleHire_def)

lemma handleHire_insert_failed:
  "rv_project pg = Some pj \<Longrightarrow> fails env CreateContract = Some e \<Longrightarrow>
   handleHire env st pg proposal =
     (pg\<lparr>rv_message := Some (StoreError e), rv_actionLoading := None\<rparr>, st)"
  by (simp add: handleHire_def insert_contract_failed)

lemma handleHire_update_failed:
  "rv_project pg = Some pj \<Longrightarrow> fails env CreateContract = None \<Longrightarrow>
   fails env SetProjectInProgress = Some e \<Longrightarrow>
   handleHire env st pg proposal =
     (pg\<lparr>rv_message := Some (StoreError e), rv_actionLoading := None\<rparr>,
      st\<lparr>contracts := contracts st @ [new_contract env pj proposal]\<rparr>)"
  by (simp add: handleHire_def insert_contract_ok set_project_failed)

lemma handleHire_success:
  "rv_project pg = Some pj \<Longrightarrow> fails env CreateContract = None \<Longrightarrow>
   fails env SetProjectInProgress = None \<Longrightarrow>
   handleHire env st pg proposal =
     (pg\<lparr>rv_message := Some ContractCreated,
         rv_project := Some (pj\<lparr>pj_status := ''in_progress''\<rparr>),
         rv_proposals :=
           map (\<lambda>p. if pr_id p = pr_id proposal then p\<lparr>pr_status := ''accepted''\<rparr>
                     else p\<lparr>pr_status := ''rejected''\<rparr>) (rv_proposals pg),
         rv_actionLoading := None\<rparr>,
      snd (reject_siblings env (pr_id proposal) (pj_id pj)
        (snd (accept_proposal env (pr_id proposal)
          (st\<lparr>contracts := contracts st @ [new_contract env pj proposal],
              projects := update_where (\<lambda>r. pj_id r = pj_id pj)
                            (\<lambda>r. r\<lparr>pj_status := ''in_progress''\<rparr>) (projects st)\<rparr>)))))"
  by (simp add: handleHire_def insert_contract_ok set_project_ok Let_def)

lemma handleHire_success_only:
  assumes "rv_project pg = Some pj"
    and "rv_message (fst (handleHire env st pg proposal)) = Some ContractCreated"
  shows "fails env CreateContract = None \<and> fails env SetProjectInProgress = None"
proof (cases "fails env CreateContract")
  case (Some e)
  with assms show ?thesis by (simp add: handleHire_insert_failed)
next
  case None
  show ?thesis
  proof (cases "fails env SetProjectInProgress")
    case (Some e)
    with assms None show ?thesis by (simp add: handleHire_update_failed)
  next
    case n: None
    with None show ?thesis by simp
  qed
qed


text \<open>
  Claim C1, as the code has it. After a hire on proposal \<open>p0\<close> of the loaded project \<open>P\<close>
  reports success: one Contract has been added for \<open>P\<close>, linking project, client and the
  proposal's freelancer, with the proposal's budget if present and else the project's as
  total amount, and it is the only one for \<open>P\<close> if none existed before; every stored row of
  \<open>P\<close> has status in_progress; the page shows \<open>P\<close> in progress, \<open>p0\<close> accepted and every other
  listed proposal rejected; in the store, \<open>p0\<close> is accepted if the accept update did not
  fail and every other proposal on \<open>P\<close> is rejected if the reject update did not fail.
\<close>

theorem hire_success_effects:
  assumes "rv_project pg = Some pj"
    and "rv_message (fst (handleHire env st pg p0)) = Some ContractCreated"
  shows "contracts (snd (handleHire env st pg p0)) = contracts st @ [new_contract env pj p0] \<and>
         new_contract env pj p0 =
           \<lparr>ct_id = new_contract_id env, ct_project_id = pj_id pj,
            ct_client_id = pj_client_id pj, ct_freelancer_id = pr_freelancer_id p0,
            ct_start_date = today env,
            ct_total_amount =
              (case pr_proposed_budget p0 of Some b \<Rightarrow> Some b | None \<Rightarrow> pj_budget pj),
            ct_status = ''active''\<rparr> \<and>
         (filter (\<lambda>c. ct_project_id c = pj_id pj) (contracts st) = [] \<longrightarrow>
            filter (\<lambda>c. ct_project_id c = pj_id pj) (contracts (snd (handleHire env st pg p0))) =
              [new_contract env pj p0]) \<and>
         map pj_id (projects (snd (handleHire env st pg p0))) = map pj_id (projects st) \<and>
         (\<forall>r \<in> set (projects (snd (handleHire env st pg p0))).
            pj_id r = pj_id pj \<longrightarrow> pj_status r = ''in_progress'') \<and>
         rv_project (fst (handleHire env st pg p0)) = Some (pj\<lparr>pj_status := ''in_progress''\<rparr>) \<and>
         map pr_id (rv_proposals (fst (handleHire env st pg p0))) = map pr_id (rv_proposals pg) \<and>
         (\<forall>p \<in> set (rv_proposals (fst (handleHire env st pg p0))).
            pr_status p = (if pr_id p = pr_id p0 then ''accepted'' else ''rejected'')) \<and>
         (fails env AcceptProposal = None \<longrightarrow>
            (\<forall>r \<in> set (proposals (snd (handleHire env st pg p0))).
               pr_id r = pr_id p0 \<longrightarrow> pr_status r = ''accepted'')) \<and>
         (fails env RejectSiblings = None \<longrightarrow>
            (\<forall>r \<in> set (proposals (snd (handleHire env st pg p0))).
               pr_id r \<noteq> pr_id p0 \<and> pr_project_id r = pj_id pj \<longrightarrow> pr_status r = ''rejected''))"
proof -
  let ?pg' = "fst (handleHire env st pg p0)"
  let ?st' = "snd (handleHire env st pg p0)"
  from handleHire_success_only [OF assms]
  have ok: "fails env CreateContract = None" "fails env SetProjectInProgress = None"
    by simp_all
  note run = handleHire_success [OF assms(1) ok, of st p0]
  have c: "contracts ?st' = contracts st @ [new_contract env pj p0]"
    by (simp add: run accept_proposal_others reject_siblings_others)
  have n: "new_contract env pj p0 =
           \<lparr>ct_id = new_contract_id env, ct_project_id = pj_id pj,
            ct_client_id = pj_client_id pj, ct_freelancer_id = pr_freelancer_id p0,
            ct_start_date = today env,
            ct_total_amount =
              (case pr_proposed_budget p0 of Some b \<Rightarrow> Some b | None \<Rightarrow> pj_budget pj),
            ct_status = ''active''\<rparr>"
    by (simp add: new_contract_def)
  have one: "filter (\<lambda>c. ct_project_id c = pj_id pj) (contracts st) = [] \<longrightarrow>
      filter (\<lambda>c. ct_project_id c = pj_id pj) (contracts ?st') = [new_contract env pj p0]"
    by (simp add: c new_contract_def)
  have pjs: "projects ?st' =
      update_where (\<lambda>r. pj_id r = pj_id pj) (\<lambda>r. r\<lparr>pj_status := ''in_progress''\<rparr>) (projects st)"
    by (simp add: run accept_proposal_others reject_siblings_others)
  have ids: "map pj_id (projects ?st') = map pj_id (projects st)"
    unfolding pjs by (rule update_where_keeps) simp
  have inprog: "\<forall>r \<in> set (projects ?st'). pj_id r = pj_id pj \<longrightarrow> pj_status r = ''in_progress''"
  proof (intro ballI impI)
    fix r assume "r \<in> set (projects ?st')" and i: "pj_id r = pj_id pj"
    then have "r \<in> set (update_where (\<lambda>r. pj_id r = pj_id pj)
        (\<lambda>r. r\<lparr>pj_status := ''in_progress''\<rparr>) (projects st))"
      by (simp only: pjs)
    then show "pj_status r = ''in_progress''" using i by (cases rule: in_update_where) simp_all
  qed
  have shown_pj: "rv_project ?pg' = Some (pj\<lparr>pj_status := ''in_progress''\<rparr>)"
    by (simp add: run)
  have shown: "rv_proposals ?pg' =
      map (\<lambda>p. if pr_id p = pr_id p0 then p\<lparr>pr_status := ''accepted''\<rparr>
                else p\<lparr>pr_status := ''rejected''\<rparr>) (rv_proposals pg)"
    by (simp add: run)
  have shown_ids: "map pr_id (rv_proposals ?pg') = map pr_id (rv_proposals pg)"
    unfolding shown by (induction "rv_proposals pg") simp_all
  have shown_status: "\<forall>p \<in> set (rv_proposals ?pg').
      pr_status p = (if pr_id p = pr_id p0 then ''accepted'' else ''rejected'')"
    unfolding shown by auto
  have props: "proposals ?st' =
      proposals (snd (reject_siblings env (pr_id p0) (pj_id pj)
        (snd (accept_proposal env (pr_id p0)
          (st\<lparr>contracts := contracts st @ [new_contract env pj p0],
              projects := update_where (\<lambda>r. pj_id r = pj_id pj)
                            (\<lambda>r. r\<lparr>pj_status := ''in_progress''\<rparr>) (projects st)\<rparr>)))))"
    by (simp only: run snd_conv)
  have acc: "fails env AcceptProposal = None \<longrightarrow>
      (\<forall>r \<in> set (proposals ?st'). pr_id r = pr_id p0 \<longrightarrow> pr_status r = ''accepted'')"
    unfolding props by (intro impI ballI) (rule chosen_accepted)
  have rej: "fails env RejectSiblings = None \<longrightarrow>
      (\<forall>r \<in> set (proposals ?st').
         pr_id r \<noteq> pr_id p0 \<and> pr_project_id r = pj_id pj \<longrightarrow> pr_status r = ''rejected'')"
    unfolding props
  proof (intro impI ballI, elim conjE)
    fix r
    assume "fails env RejectSiblings = None"
      and "r \<in> set (proposals (snd (reject_siblings env (pr_id p0) (pj_id pj)
        (snd (accept_proposal env (pr_id p0)
          (st\<lparr>contracts := contracts st @ [new_contract env pj p0],
              projects := update_where (\<lambda>r. pj_id r = pj_id pj)
                            (\<lambda>r. r\<lparr>pj_status := ''in_progress''\<rparr>) (projects st)\<rparr>))))))"
      and "pr_id r \<noteq> pr_id p0" and "pr_project_id r = pj_id pj"
    then show "pr_status r = ''rejected''" by (rule siblings_rejected)
  qed
  show ?thesis
    by (intro conjI c n one ids inprog shown_pj shown_ids shown_status acc rej)
qed

theorem hire_success_effects_witness:
  "rv_message (fst (handleHire (failing [] ''c1'') store0 page0 bid0)) = Some ContractCreated \<and>
   contracts (snd (handleHire (failing [] ''c1'') store0 page0 bid0)) =
     [\<lparr>ct_id = ''c1'', ct_project_id = ''P'', ct_client_id = ''alice'',
       ct_freelancer_id = ''bob'', ct_start_date = ''2024-05-01'',
       ct_total_amount = Some 400, ct_status = ''active''\<rparr>] \<and>
   map pj_status (projects (snd (handleHire (failing [] ''c1'') store0 page0 bid0))) =
     [''in_progress''] \<and>
   map pr_status (proposals (snd (handleHire (failing [] ''c1'') store0 page0 bid0))) =
     [''accepted'', ''rejected''] \<and>
   map pr_status (rv_proposals (fst (handleHire (failing [] ''c1'') store0 page0 bid0))) =
     [''accepted'', ''rejected'']"
proof -
  have p: "rv_project page0 = Some job0" by (simp add: page0_value)
  have m: "rv_message (fst (handleHire (failing [] ''c1'') store0 page0 bid0)) =
      Some ContractCreated"
    by (simp add: hire_defs scene_defs)
  from hire_success_effects [OF p m] m show ?thesis
    by (simp add: hire_defs scene_defs)
qed

text \<open>
  The claim as stated fails. The owner's first hire stops at the project update, leaving
  the job open with a contract; the second try from the same page reports success although
  both proposal updates fail: the store then holds two contracts for the job and both
  proposals still pending.
\<close>

theorem hire_retry_counterexample:
  "hire_offered (fst first_try) bid0 \<and>
   map pj_status (projects (snd first_try)) = [''open''] \<and>
   rv_message (fst retry) = Some ContractCreated \<and>
   map pr_status (proposals (snd retry)) = [''pending'', ''pending''] \<and>
   map ct_project_id (contracts (snd retry)) = [''P'', ''P'']"
  by (simp add: retry_def first_try_def hire_offered_def hire_defs scene_defs)

text \<open>
  Claim C3, as the code has it. A hire on a loaded project whose status is not open is not
  refused: the status is never read. No Contract is created only if the insert fails at
  the store, which is reported with the store's message; otherwise one Contract is added,
  and when the project update succeeds too the hire reports success.
\<close>

theorem hire_not_open_outcomes:
  assumes "rv_project pg = Some pj" and "pj_status pj \<noteq> ''open''"
  shows "(\<forall>e. fails env CreateContract = Some e \<longrightarrow>
            handleHire env st pg proposal =
              (pg\<lparr>rv_message := Some (StoreError e), rv_actionLoading := None\<rparr>, st)) \<and>
         (fails env CreateContract = None \<longrightarrow>
            contracts (snd (handleHire env st pg proposal)) =
              contracts st @ [new_contract env pj proposal]) \<and>
         (fails env CreateContract = None \<and> fails env SetProjectInProgress = None \<longrightarrow>
            rv_message (fst (handleHire env st pg proposal)) = Some ContractCreated)"
proof (intro conjI allI impI)
  fix e assume "fails env CreateContract = Some e"
  with assms(1) show "handleHire env st pg proposal =
      (pg\<lparr>rv_message := Some (StoreError e), rv_actionLoading := None\<rparr>, st)"
    by (rule handleHire_insert_failed)
next
  assume ok: "fails env CreateContract = None"
  show "contracts (snd (handleHire env st pg proposal)) = contracts st @ [new_contract env pj proposal]"
  proof (cases "fails env SetProjectInProgress")
    case None
    from handleHire_success [OF assms(1) ok None, of st proposal] show ?thesis
      by (simp add: accept_proposal_others reject_siblings_others)
  next
    case (Some e)
    from handleHire_update_failed [OF assms(1) ok Some, of st proposal] show ?thesis by simp
  qed
next
  assume "fails env CreateContract = None \<and> fails env SetProjectInProgress = None"
  then have ok: "fails env CreateContract = None" "fails env SetProjectInProgress = None"
    by simp_all
  from handleHire_success [OF assms(1) ok, of st proposal]
  show "rv_message (fst (handleHire env st pg proposal)) = Some ContractCreated" by simp
qed

theorem hire_not_open_outcomes_witness:
  "handleHire (failing [CreateContract] ''c1'') busy_store busy_page bid0 =
     (busy_page\<lparr>rv_message := Some (StoreError ''timeout''), rv_actionLoading := None\<rparr>,
      busy_store) \<and>
   contracts (snd (handleHire (failing [] ''c1'') busy_store busy_page bid0)) =
     [new_contract (failing [] ''c1'') (job0\<lparr>pj_status := ''in_progress''\<rparr>) bid0] \<and>
   rv_message (fst (handleHire (failing [] ''c1'') busy_store busy_page bid0)) =
     Some ContractCreated"
proof -
  have p: "rv_project busy_page = Some (job0\<lparr>pj_status := ''in_progress''\<rparr>)"
    by (simp add: busy_page_value)
  have s: "pj_status (job0\<lparr>pj_status := ''in_progress''\<rparr>) \<noteq> ''open''" by simp
  have c: "contracts busy_store = []" by (simp add: busy_store_def store0_def)
  from hire_not_open_outcomes [OF p s, of "failing [CreateContract] ''c1''" busy_store bid0]
    hire_not_open_outcomes [OF p s, of "failing [] ''c1''" busy_store bid0]
  show ?thesis by (simp add: failing_def c)
qed

text \<open>
  The claim as stated fails: for a job already in progress the page still offers Hire on
  a pending proposal, and the hire goes through and creates a Contract.
\<close>

theorem hire_on_busy_project_counterexample:
  "map pj_status (projects busy_store) = [''in_progress''] \<and>
   hire_offered busy_page bid0 \<and>
   rv_message (fst (handleHire (failing [] ''c1'') busy_store busy_page bid0)) =
     Some ContractCreated \<and>
   map ct_project_id (contracts (snd (handleHire (failing [] ''c1'') busy_store busy_page bid0))) =
     [''P'']"
  by (simp add: busy_store_def busy_page_value hire_offered_def hire_defs scene_defs)

text \<open>
  Claim C5, as the code has it. When the contract insert or the project update fails at the
  store, the hire stops at that step and reports the store's message for it, never
  success; the message is the store's own text and carries no mark of the step. The two
  proposal updates are not checked: once the first two writes have succeeded the hire
  reports success, whether or not the proposal updates failed.
\<close>

theorem hire_reports_checked_steps:
  assumes "rv_project pg = Some pj"
  shows "(\<forall>e. fails env CreateContract = Some e \<longrightarrow>
            rv_message (fst (handleHire env st pg proposal)) = Some (StoreError e) \<and>
            snd (handleHire env st pg proposal) = st) \<and>
         (\<forall>e. fails env CreateContract = None \<and> fails env SetProjectInProgress = Some e \<longrightarrow>
            rv_message (fst (handleHire env st pg proposal)) = Some (StoreError e) \<and>
            snd (handleHire env st pg proposal) =
              st\<lparr>contracts := contracts st @ [new_contract env pj proposal]\<rparr>) \<and>
         (fails env CreateContract = None \<and> fails env SetProjectInProgress = None \<longrightarrow>
            rv_message (fst (handleHire env st pg proposal)) = Some ContractCreated)"
proof (intro conjI allI impI)
  fix e assume e: "fails env CreateContract = Some e"
  from handleHire_insert_failed [OF assms e, of st proposal]
  show "rv_message (fst (handleHire env st pg proposal)) = Some (StoreError e)"
    and "snd (handleHire env st pg proposal) = st" by simp_all
next
  fix e assume "fails env CreateContract = None \<and> fails env SetProjectInProgress = Some e"
  then have ok: "fails env CreateContract = None" and e: "fails env SetProjectInProgress = Some e"
    by simp_all
  from handleHire_update_failed [OF assms ok e, of st proposal]
  show "rv_message (fst (handleHire env st pg proposal)) = Some (StoreError e)"
    and "snd (handleHire env st pg proposal) =
      st\<lparr>contracts := contracts st @ [new_contract env pj proposal]\<rparr>" by simp_all
next
  assume "fails env CreateContract = None \<and> fails env SetProjectInProgress = None"
  then have ok: "fails env CreateContract = None" "fails env SetProjectInProgress = None"
    by simp_all
  from handleHire_success [OF assms ok, of st proposal]
  show "rv_message (fst (handleHire env st pg proposal)) = Some ContractCreated" by simp
qed

theorem hire_reports_checked_steps_witness:
  "rv_message (fst (handleHire (failing [CreateContract] ''c1'') store0 page0 bid0)) =
     Some (StoreError ''timeout'') \<and>
   snd (handleHire (failing [CreateContract] ''c1'') store0 page0 bid0) = store0 \<and>
   rv_message (fst (handleHire (failing [SetProjectInProgress] ''c1'') store0 page0 bid0)) =
     Some (StoreError ''timeout'') \<and>
   snd (handleHire (failing [SetProjectInProgress] ''c1'') store0 page0 bid0) =
     store0\<lparr>contracts :=
       contracts store0 @ [new_contract (failing [SetProjectInProgress] ''c1'') job0 bid0]\<rparr> \<and>
   rv_message (fst (handleHire (failing [RejectSiblings] ''c1'') store0 page0 bid0)) =
     Some ContractCreated"
proof -
  have p: "rv_project page0 = Some job0" by (simp add: page0_value)
  from hire_reports_checked_steps [OF p, of "failing [CreateContract] ''c1''" store0 bid0]
    hire_reports_checked_steps [OF p, of "failing [SetProjectInProgress] ''c1''" store0 bid0]
    hire_reports_checked_steps [OF p, of "failing [RejectSiblings] ''c1''" store0 bid0]
  show ?thesis by (simp add: failing_def)
qed

text \<open>
  The claim as stated fails: with the accept update failing at the store the hire still
  reports success, and the chosen proposal stays pending.
\<close>

theorem accept_failure_counterexample:
  "fails (failing [AcceptProposal] ''c1'') AcceptProposal = Some ''timeout'' \<and>
   rv_message (fst (handleHire (failing [AcceptProposal] ''c1'') store0 page0 bid0)) =
     Some ContractCreated \<and>
   map pr_status (proposals (snd (handleHire (failing [AcceptProposal] ''c1'') store0 page0 bid0))) =
     [''pending'', ''rejected'']"
  by (simp add: hire_defs scene_defs)

section \<open>Properties of the contract dashboard\<close>

lemma opened_alice:
  "opened alice escrow0 =
     \<lparr>dp_id = ''k1'', dp_contract = Some deal0, dp_milestones = [stone0],
      dp_profile = Some alice, dp_loading = False, dp_error = None, dp_actionLoading = False\<rparr>"
  by (simp add: opened_def on_load_def initial_dash_def fetchProfile_def
      fetchContractAndMilestones_def escrow0_def calm_def deal0_def stone0_def
      alice_def bob_def carol_def eve_def Let_def)





lemma buttons_forward:
  "a \<in> set (buttons pg m) \<Longrightarrow>
     (ms_status m, requested a) \<in>
       {(''pending'', ''funded''), (''funded'', ''in_review''),
        (''funded'', ''released''), (''in_review'', ''released'')}"
  by (auto simp: buttons_def split: if_splits)

lemma press_SomeD:
  assumes "press env st pg m a = Some r"
  shows "a \<in> set (buttons pg m)" and "m \<in> set (dp_milestones pg)"
    and "\<not> dp_loading pg" and "\<not> dp_actionLoading pg" and "dp_contract pg \<noteq> None"
    and "r = updateMilestoneStatus env st pg (ms_id m) (requested a)"
  using assms
  by (auto simp: press_def render_def split: view.splits if_splits option.splits)



lemma coherent_fetch: "coherent pg \<Longrightarrow> coherent (fetchContractAndMilestones env st pg)"
  by (auto simp: coherent_def fetchContractAndMilestones_def Let_def list_all_iff
      dest: single_filter split: option.splits sum.splits)

lemma coherent_flags [simp]:
  "coherent (pg\<lparr>dp_actionLoading := b\<rparr>) = coherent pg"
  "coherent (pg\<lparr>dp_error := e\<rparr>) = coherent pg"
  "coherent (pg\<lparr>dp_loading := b\<rparr>) = coherent pg"
  by (simp_all add: coherent_def split: option.split)

lemma coherent_update:
  "coherent pg \<Longrightarrow> coherent (fst (updateMilestoneStatus env st pg i s))"
  by (cases "update_fails env") (simp_all add: updateMilestoneStatus_def Let_def coherent_fetch)

text \<open>The first load of the dashboard leaves a coherent page holding the user's own profile.\<close>

lemma coherent_initial: "coherent (initial_dash cid)"
  by (simp add: coherent_def initial_dash_def)

lemma coherent_profile: "coherent (pg\<lparr>dp_profile := pf\<rparr>) = coherent pg"
  by (simp add: coherent_def split: option.split)

lemma coherent_on_load: "coherent pg \<Longrightarrow> coherent (on_load env st user pg)"
  by (simp add: on_load_def fetchProfile_def coherent_fetch coherent_profile split: option.split)

lemma on_load_profile:
  assumes "dp_profile (on_load env st user (initial_dash cid)) = Some pf"
  shows "user = Some (pf_id pf) \<and> pf \<in> set (profiles st)"
  using assms
  by (auto simp: on_load_def fetchProfile_def fetchContractAndMilestones_def initial_dash_def
      Let_def dest: single_filter split: if_splits option.splits sum.splits)

text \<open>
  After a change of route the page is coherent again once a reload ends without an error.
\<close>

lemma fetch_clean_coherent:
  "dp_error (fetchContractAndMilestones env st pg) = None \<Longrightarrow>
   coherent (fetchContractAndMilestones env st pg)"
  by (auto simp: coherent_def fetchContractAndMilestones_def Let_def list_all_iff
      dest: single_filter split: option.splits sum.splits)

lemma on_load_clean_coherent:
  "dp_id pg \<noteq> [] \<Longrightarrow> user \<noteq> None \<Longrightarrow> dp_error (on_load env st user pg) = None \<Longrightarrow>
   coherent (on_load env st user pg)"
  by (simp add: on_load_def fetch_clean_coherent)

lemma navigate_clean_coherent:
  "contract_id \<noteq> dp_id pg \<Longrightarrow> contract_id \<noteq> [] \<Longrightarrow> user \<noteq> None \<Longrightarrow>
   dp_error (navigate env st user contract_id pg) = None \<Longrightarrow>
   coherent (navigate env st user contract_id pg)"
  by (simp add: navigate_def on_load_clean_coherent)




lemma press_fund_b: "press calm escrow0 (opened alice escrow0) stone0 Fund = Some fund_b"
  unfolding fund_b_def opened_alice
  by (simp add: press_def render_def buttons_def isClient_def
    isFreelancer_def alice_def deal0_def stone0_def)




text \<open>
  Claim C2, as the code has it. The dashboard offers only the moves pending to funded,
  funded to in_review, funded to released and in_review to released, judged by the status
  the page holds for the milestone, and none for a milestone it shows in any other status
  (released among them). A pressed move writes the requested status and a timestamp to the
  stored rows of that milestone without reading their status; if the write fails at the
  store nothing changes and an error is shown. There is no invalid-transition error.
\<close>

theorem offered_moves_forward:
  "(\<forall>pg' st'. press env st pg m a = Some (pg', st') \<longrightarrow>
      (ms_status m, requested a) \<in>
        {(''pending'', ''funded''), (''funded'', ''in_review''),
         (''funded'', ''released''), (''in_review'', ''released'')} \<and>
      (update_fails env = None \<longrightarrow>
         milestones st' =
           update_where (\<lambda>r. ms_id r = ms_id m)
             (\<lambda>r. r\<lparr>ms_status := requested a, ms_updated_at := now env\<rparr>) (milestones st)) \<and>
      (\<forall>e. update_fails env = Some e \<longrightarrow>
         st' = st \<and> dp_error pg' = Some (if e = [] then UpdateFailed else ErrorMessage e))) \<and>
   (ms_status m \<noteq> ''pending'' \<and> ms_status m \<noteq> ''funded'' \<and> ms_status m \<noteq> ''in_review'' \<longrightarrow>
      press env st pg m a = None)"
proof (intro conjI allI impI)
  fix pg' st' assume p: "press env st pg m a = Some (pg', st')"
  from press_SomeD(1) [OF p]
  show "(ms_status m, requested a) \<in>
        {(''pending'', ''funded''), (''funded'', ''in_review''),
         (''funded'', ''released''), (''in_review'', ''released'')}"
    by (rule buttons_forward)
  note r = press_SomeD(6) [OF p]
  show "milestones st' =
      update_where (\<lambda>r. ms_id r = ms_id m)
        (\<lambda>r. r\<lparr>ms_status := requested a, ms_updated_at := now env\<rparr>) (milestones st)"
    if "update_fails env = None"
    using r that by (simp add: updateMilestoneStatus_def Let_def)
  show "st' = st" and "dp_error pg' = Some (if e = [] then UpdateFailed else ErrorMessage e)"
    if "update_fails env = Some e" for e
    using r that by (simp_all add: updateMilestoneStatus_def Let_def)
next
  assume "ms_status m \<noteq> ''pending'' \<and> ms_status m \<noteq> ''funded'' \<and> ms_status m \<noteq> ''in_review''"
  then have "buttons pg m = []" by (simp add: buttons_def)
  then show "press env st pg m a = None"
    by (simp add: press_def split: view.split)
qed

lemma fund_b_value:
  "fund_b =
     (\<lparr>dp_id = ''k1'', dp_contract = Some deal0,
       dp_milestones = [stone0\<lparr>ms_status := ''funded'', ms_updated_at := ''t1''\<rparr>],
       dp_profile = Some alice, dp_loading = False, dp_error = None,
       dp_actionLoading = False\<rparr>,
      escrow0\<lparr>milestones := [stone0\<lparr>ms_status := ''funded'', ms_updated_at := ''t1''\<rparr>]\<rparr>)"
  unfolding fund_b_def opened_alice
  by (simp add: updateMilestoneStatus_def fetchContractAndMilestones_def update_where_def
      escrow0_def calm_def deal0_def stone0_def Let_def)

lemma release_b_value:
  "release_b =
     (\<lparr>dp_id = ''k1'', dp_contract = Some deal0,
       dp_milestones = [stone0\<lparr>ms_status := ''released'', ms_updated_at := ''t1''\<rparr>],
       dp_profile = Some alice, dp_loading = False, dp_error = None,
       dp_actionLoading = False\<rparr>,
      escrow0\<lparr>milestones := [stone0\<lparr>ms_status := ''released'', ms_updated_at := ''t1''\<rparr>]\<rparr>)"
  unfolding release_b_def fund_b_value
  by (simp add: updateMilestoneStatus_def fetchContractAndMilestones_def update_where_def
      escrow0_def calm_def deal0_def stone0_def Let_def)

lemma fund_a_value:
  "fund_a =
     (\<lparr>dp_id = ''k1'', dp_contract = Some deal0,
       dp_milestones = [stone0\<lparr>ms_status := ''funded'', ms_updated_at := ''t1''\<rparr>],
       dp_profile = Some alice, dp_loading = False, dp_error = None,
       dp_actionLoading = False\<rparr>,
      escrow0\<lparr>milestones := [stone0\<lparr>ms_status := ''funded'', ms_updated_at := ''t1''\<rparr>]\<rparr>)"
  unfolding fund_a_def release_b_value opened_alice
  by (simp add: updateMilestoneStatus_def fetchContractAndMilestones_def update_where_def
      escrow0_def calm_def deal0_def stone0_def Let_def)

theorem offered_moves_forward_witness:
  "press calm escrow0 (opened alice escrow0) stone0 Fund = Some fund_b \<and>
   (ms_status stone0, requested Fund) = (''pending'', ''funded'') \<and>
   milestones (snd fund_b) = [stone0\<lparr>ms_status := ''funded'', ms_updated_at := ''t1''\<rparr>] \<and>
   press calm (snd release_b) (fst release_b)
     (stone0\<lparr>ms_status := ''released'', ms_updated_at := ''t1''\<rparr>) Release = None"
proof -
  have "press calm (snd release_b) (fst release_b)
     (stone0\<lparr>ms_status := ''released'', ms_updated_at := ''t1''\<rparr>) Release = None"
    using offered_moves_forward [of calm "snd release_b" "fst release_b"
        "stone0\<lparr>ms_status := ''released'', ms_updated_at := ''t1''\<rparr>" Release]
    by simp
  moreover have "milestones (snd fund_b) =
      [stone0\<lparr>ms_status := ''funded'', ms_updated_at := ''t1''\<rparr>]"
  proof -
    have "press calm escrow0 (opened alice escrow0) stone0 Fund = Some (fst fund_b, snd fund_b)"
      by (simp add: press_fund_b)
    from offered_moves_forward [of calm escrow0 "opened alice escrow0" stone0 Fund,
        THEN conjunct1, THEN spec, THEN spec, THEN mp, OF this]
    show ?thesis by (simp add: calm_def escrow0_def update_where_def stone0_def)
  qed
  ultimately show ?thesis using press_fund_b by (simp add: stone0_def)
qed

text \<open>
  The claim as stated fails. With the milestone released through a second tab, the Fund
  button of the first tab, which still shows it pending, sets it back to funded, and no
  error is raised; and \<open>updateMilestoneStatus\<close> asked to release a pending milestone does so.
\<close>

theorem stale_tab_counterexample:
  "press calm escrow0 (opened alice escrow0) stone0 Fund = Some fund_b \<and>
   press calm (snd fund_b) (fst fund_b)
     (stone0\<lparr>ms_status := ''funded'', ms_updated_at := ''t1''\<rparr>) Release = Some release_b \<and>
   map ms_status (milestones (snd release_b)) = [''released''] \<and>
   press calm (snd release_b) (opened alice escrow0) stone0 Fund = Some fund_a \<and>
   map ms_status (milestones (snd fund_a)) = [''funded''] \<and>
   dp_error (fst fund_a) = None \<and>
   map ms_status (milestones (snd
     (updateMilestoneStatus calm escrow0 (opened alice escrow0) ''m1'' ''released''))) =
     [''released''] \<and>
   dp_error (fst
     (updateMilestoneStatus calm escrow0 (opened alice escrow0) ''m1'' ''released'')) = None"
proof -
  have b: "press calm (snd fund_b) (fst fund_b)
     (stone0\<lparr>ms_status := ''funded'', ms_updated_at := ''t1''\<rparr>) Release = Some release_b"
    unfolding release_b_def unfolding fund_b_value
    by (simp add: press_def render_def buttons_def isClient_def isFreelancer_def alice_def
        deal0_def stone0_def)
  have a: "press calm (snd release_b) (opened alice escrow0) stone0 Fund = Some fund_a"
    unfolding fund_a_def unfolding release_b_value opened_alice
    by (simp add: press_def render_def buttons_def isClient_def isFreelancer_def alice_def
        deal0_def stone0_def)
  have d: "map ms_status (milestones (snd
     (updateMilestoneStatus calm escrow0 (opened alice escrow0) ''m1'' ''released''))) =
     [''released''] \<and>
   dp_error (fst
     (updateMilestoneStatus calm escrow0 (opened alice escrow0) ''m1'' ''released'')) = None"
    unfolding opened_alice
    by (simp add: updateMilestoneStatus_def fetchContractAndMilestones_def update_where_def
      escrow0_def calm_def deal0_def stone0_def Let_def)
  from press_fund_b b a d show ?thesis
    by (simp add: release_b_value fund_a_value)
qed

end
